theory Spec2Isabelle
  imports Complex_Main
begin

section \<open>Climate profile aggregation (scripts/fetch\_climate\_data.py)\<close>

text \<open>
  A shallow embedding of the aggregation code of \<^verbatim>\<open>scripts/fetch_climate_data.py\<close>:
  \<^verbatim>\<open>process_monthly_data\<close>, \<^verbatim>\<open>_compute_variability\<close>, \<^verbatim>\<open>_std\<close> and the zone loop
  of \<^verbatim>\<open>main\<close>.

  Numbers. The raw values are JSON numbers and the code computes with Python floats.
  The reductions are modelled with exact real numbers: \<^verbatim>\<open>x ** 0.5\<close> on a non-negative
  variance is \<^term>\<open>sqrt\<close>, and \<^verbatim>\<open>round(x, n)\<close> is rounding to \<open>n\<close> decimals with ties
  to even; binary rounding error, overflow and the non-finite floats are outside that
  model. \<^verbatim>\<open>_std\<close> is modelled a second time on IEEE doubles, with rounding, overflow,
  infinities and NaN, for what is said of its exact results.
\<close>

subsection \<open>Raw values, dictionaries and errors\<close>

text \<open>A raw entry is a JSON number or JSON null (Python \<^verbatim>\<open>None\<close>).\<close>

datatype jval = Null | Num real

text \<open>
  The exceptions the modelled code can raise: a missing dictionary key, arithmetic on
  \<^verbatim>\<open>None\<close>, and whatever the external fetch collaborator raises (carried with its
  message).
\<close>

datatype error = KeyError string | TypeError | FetchError string

type_synonym series = "string \<rightharpoonup> jval"
type_synonym params_data = "string \<rightharpoonup> series"
type_synonym api_response = "string \<rightharpoonup> (string \<rightharpoonup> params_data)"

text \<open>\<^verbatim>\<open>d.get(key, default)\<close>\<close>

definition dict_get :: "('k \<rightharpoonup> 'v) \<Rightarrow> 'k \<Rightarrow> 'v \<Rightarrow> 'v" where
  "dict_get d key dflt = (case d key of None \<Rightarrow> dflt | Some v \<Rightarrow> v)"

text \<open>\<^verbatim>\<open>d[key]\<close>, which raises \<^verbatim>\<open>KeyError(key)\<close> on a missing key.\<close>

definition dict_index :: "(string \<rightharpoonup> 'v) \<Rightarrow> string \<Rightarrow> error + 'v" where
  "dict_index d key = (case d key of None \<Rightarrow> Inl (KeyError key) | Some v \<Rightarrow> Inr v)"

text \<open>Sequencing of computations that may raise.\<close>

definition bind_err :: "error + 'a \<Rightarrow> ('a \<Rightarrow> error + 'b) \<Rightarrow> error + 'b" where
  "bind_err r f = (case r of Inl e \<Rightarrow> Inl e | Inr v \<Rightarrow> f v)"

subsection \<open>Period keys: \<^verbatim>\<open>f"{year}{month:02d}"\<close>\<close>

definition digit_char :: "nat \<Rightarrow> char" where
  "digit_char d = ''0123456789'' ! d"

fun string_of_nat :: "nat \<Rightarrow> string" where
  "string_of_nat n =
     (if n < 10 then [digit_char n]
      else string_of_nat (n div 10) @ [digit_char (n mod 10)])"

declare string_of_nat.simps [simp del]

text \<open>\<^verbatim>\<open>str(year)\<close> and \<^verbatim>\<open>f"{year}"\<close> for a Python int.\<close>

definition str_int :: "int \<Rightarrow> string" where
  "str_int i = (if i < 0 then CHR ''-'' # string_of_nat (nat (- i)) else string_of_nat (nat i))"

text \<open>\<^verbatim>\<open>f"{month:02d}"\<close> for a non-negative month number: zero-padded to width 2.\<close>

definition pad2 :: "nat \<Rightarrow> string" where
  "pad2 n = (let s = string_of_nat n in replicate (2 - length s) CHR ''0'' @ s)"

definition period_key :: "int \<Rightarrow> nat \<Rightarrow> string" where
  "period_key year month = str_int year @ pad2 month"

subsection \<open>Constants\<close>

definition PARAMETERS :: "string list" where
  "PARAMETERS =
     [''T2M'', ''T2M_MAX'', ''T2M_MIN'', ''PRECTOTCORR'',
      ''T2M_RANGE'', ''RH2M'', ''WS2M'', ''ALLSKY_SFC_SW_DWN'']"

definition MONTH_NAMES :: "string list" where
  "MONTH_NAMES =
     [''Jan'', ''Feb'', ''Mar'', ''Apr'', ''May'', ''Jun'',
      ''Jul'', ''Aug'', ''Sep'', ''Oct'', ''Nov'', ''Dec'']"

definition days_per_month :: "real list" where
  "days_per_month = [31, 28.25, 31, 30, 31, 30, 31, 31, 30, 31, 30, 31]"

subsection \<open>Statistics helpers\<close>

text \<open>
  \<^verbatim>\<open>round(x, n)\<close>: the multiple of \<open>10\<^sup>-\<^sup>n\<close> nearest to \<open>x\<close>, a tie going to the even
  multiple.
\<close>

definition py_round :: "real \<Rightarrow> nat \<Rightarrow> real" where
  "py_round x n =
     (let y = x * 10 ^ n; f = \<lfloor>y\<rfloor>; d = y - of_int f
      in of_int (if d < 1 / 2 then f
                 else if 1 / 2 < d then f + 1
                 else if even f then f else f + 1) / 10 ^ n)"

text \<open>\<^verbatim>\<open>sum(values) / len(values)\<close>, only ever evaluated on a non-empty list.\<close>

definition mean :: "real list \<Rightarrow> real" where
  "mean values = sum_list values / real (length values)"

text \<open>
  \<^verbatim>\<open>
  def _std(values):
      if len(values) < 2:
          return 0.0
      mean = sum(values) / len(values)
      variance = sum((x - mean) ** 2 for x in values) / (len(values) - 1)
      return variance ** 0.5
  \<close>
  \<open>std\<close> is this function in exact arithmetic: every operation without rounding and
  without overflow. The function on doubles is \<open>std_float\<close> below.
\<close>

definition std :: "real list \<Rightarrow> real" where
  "std values =
     (if length values < 2 then 0
      else let mean = sum_list values / real (length values);
               variance = sum_list (map (\<lambda>x. (x - mean) ^ 2) values)
                            / real (length values - 1)
           in sqrt variance)"

text \<open>\<^verbatim>\<open>min(values)\<close> and \<^verbatim>\<open>max(values)\<close>, only ever evaluated on a non-empty list.\<close>

definition py_min :: "real list \<Rightarrow> real" where
  "py_min values = fold min (tl values) (hd values)"

definition py_max :: "real list \<Rightarrow> real" where
  "py_max values = fold max (tl values) (hd values)"

text \<open>
  The guard of every collecting loop of \<^verbatim>\<open>process_monthly_data\<close> and of the
  precipitation part of \<^verbatim>\<open>_compute_variability\<close>:
  \<^verbatim>\<open>
  if val != -999 and val is not None:
      values.append(val)
  \<close>
  A value that passes is a number, so the collected list is a list of reals.
\<close>

fun append_valid :: "jval \<Rightarrow> real list \<Rightarrow> real list" where
  "append_valid Null values = values"
| "append_valid (Num r) values = (if r \<noteq> - 999 then values @ [r] else values)"

subsection \<open>\<^verbatim>\<open>_std\<close> on doubles\<close>

text \<open>
  A Python float is an IEEE-754 double: \<open>Finite r\<close> is the double of value \<open>r\<close> (the two
  zeros are not distinguished), and there are the two infinities and NaN.
\<close>

datatype pyfloat = Finite real | PosInf | NegInf | NaN

text \<open>
  What the float operations of \<^verbatim>\<open>_std\<close> can produce other than a float:
  \<^verbatim>\<open>OverflowError\<close> from \<^verbatim>\<open>**\<close>, \<^verbatim>\<open>ZeroDivisionError\<close> from \<^verbatim>\<open>/\<close>, and the complex number
  that \<^verbatim>\<open>x ** 0.5\<close> is for a negative \<open>x\<close>.
\<close>

datatype arith_error = OverflowError | ZeroDivisionError | ComplexResult

definition bind_arith :: "arith_error + 'a \<Rightarrow> ('a \<Rightarrow> arith_error + 'b) \<Rightarrow> arith_error + 'b" where
  "bind_arith r f = (case r of Inl e \<Rightarrow> Inl e | Inr v \<Rightarrow> f v)"

text \<open>
  Rounding of a real result to the nearest double, ties to the even significand. The
  doubles around a positive \<open>a\<close> are the multiples of \<open>2\<^bsup>e - 52\<^esup>\<close>, where \<open>e\<close> is the
  binade of \<open>a\<close>: the largest exponent from -1022 to 1023 with \<open>2\<^bsup>e\<^esup> \<le> a\<close>, and -1022 for
  a subnormal \<open>a\<close>. A result of magnitude \<open>2\<^bsup>1024\<^esup> - 2\<^bsup>970\<^esup>\<close> or more, half way between
  the largest double and \<open>2\<^bsup>1024\<^esup>\<close>, rounds to an infinity.
\<close>

definition round_half_even :: "real \<Rightarrow> int" where
  "round_half_even y =
     (let f = \<lfloor>y\<rfloor>; d = y - of_int f
      in if d < 1 / 2 then f
         else if 1 / 2 < d then f + 1
         else if even f then f else f + 1)"

fun binade_below :: "real \<Rightarrow> nat \<Rightarrow> int" where
  "binade_below a 0 = - 1022"
| "binade_below a (Suc n) =
     (if 2 powi (int (Suc n) - 1022) \<le> a then int (Suc n) - 1022 else binade_below a n)"

definition binade :: "real \<Rightarrow> int" where
  "binade a = binade_below a 2045"

definition ulp :: "real \<Rightarrow> real" where
  "ulp r = 2 powi (binade \<bar>r\<bar> - 52)"

definition round_nearest :: "real \<Rightarrow> real" where
  "round_nearest r = of_int (round_half_even (r / ulp r)) * ulp r"

definition overflow_threshold :: real where
  "overflow_threshold = 2 ^ 1024 - 2 ^ 970"

definition fl :: "real \<Rightarrow> pyfloat" where
  "fl r =
     (if overflow_threshold \<le> \<bar>r\<bar> then (if 0 < r then PosInf else NegInf)
      else Finite (round_nearest r))"

text \<open>The reals that are finite doubles: those that rounding leaves unchanged.\<close>

definition is_double :: "real \<Rightarrow> bool" where
  "is_double a = (\<bar>a\<bar> < overflow_threshold \<and> round_nearest a = a)"

text \<open>
  The operations of \<^verbatim>\<open>_std\<close> on floats, over a rounding \<open>rnd\<close> of the exact result of
  two finite operands. \<^verbatim>\<open>+\<close>, \<^verbatim>\<open>-\<close> and \<^verbatim>\<open>/\<close> follow IEEE-754 and return an infinity on
  overflow; \<^verbatim>\<open>**\<close> raises \<^verbatim>\<open>OverflowError\<close> when the power of a finite float overflows,
  gives \<open>inf\<close> for an infinite base with the exponents 2 and 0.5, and NaN for a NaN base.
  The divisors are \<^verbatim>\<open>len(values)\<close> and \<^verbatim>\<open>len(values) - 1\<close>, non-negative integers.
\<close>

fun f_neg :: "pyfloat \<Rightarrow> pyfloat" where
  "f_neg (Finite a) = Finite (- a)"
| "f_neg PosInf = NegInf"
| "f_neg NegInf = PosInf"
| "f_neg NaN = NaN"

fun f_add :: "(real \<Rightarrow> pyfloat) \<Rightarrow> pyfloat \<Rightarrow> pyfloat \<Rightarrow> pyfloat" where
  "f_add rnd NaN y = NaN"
| "f_add rnd x NaN = NaN"
| "f_add rnd PosInf NegInf = NaN"
| "f_add rnd NegInf PosInf = NaN"
| "f_add rnd PosInf y = PosInf"
| "f_add rnd x PosInf = PosInf"
| "f_add rnd NegInf y = NegInf"
| "f_add rnd x NegInf = NegInf"
| "f_add rnd (Finite a) (Finite b) = rnd (a + b)"

definition f_sub :: "(real \<Rightarrow> pyfloat) \<Rightarrow> pyfloat \<Rightarrow> pyfloat \<Rightarrow> pyfloat" where
  "f_sub rnd x y = f_add rnd x (f_neg y)"

fun f_div_count :: "(real \<Rightarrow> pyfloat) \<Rightarrow> pyfloat \<Rightarrow> nat \<Rightarrow> arith_error + pyfloat" where
  "f_div_count rnd x 0 = Inl ZeroDivisionError"
| "f_div_count rnd (Finite a) n = Inr (rnd (a / real n))"
| "f_div_count rnd x n = Inr x"

fun f_pow2 :: "(real \<Rightarrow> pyfloat) \<Rightarrow> pyfloat \<Rightarrow> arith_error + pyfloat" where
  "f_pow2 rnd NaN = Inr NaN"
| "f_pow2 rnd PosInf = Inr PosInf"
| "f_pow2 rnd NegInf = Inr PosInf"
| "f_pow2 rnd (Finite a) =
     (case rnd (a * a) of Finite r \<Rightarrow> Inr (Finite r) | _ \<Rightarrow> Inl OverflowError)"

fun f_sqrt :: "(real \<Rightarrow> pyfloat) \<Rightarrow> pyfloat \<Rightarrow> arith_error + pyfloat" where
  "f_sqrt rnd NaN = Inr NaN"
| "f_sqrt rnd PosInf = Inr PosInf"
| "f_sqrt rnd NegInf = Inr PosInf"
| "f_sqrt rnd (Finite a) = (if a < 0 then Inl ComplexResult else Inr (rnd (sqrt a)))"

text \<open>\<^verbatim>\<open>sum(...)\<close>: the additions from left to right, starting from 0.\<close>

definition f_sum :: "(real \<Rightarrow> pyfloat) \<Rightarrow> pyfloat list \<Rightarrow> pyfloat" where
  "f_sum rnd xs = fold (\<lambda>x total. f_add rnd total x) xs (Finite 0)"

text \<open>\<^verbatim>\<open>(x - mean) ** 2 for x in values\<close>; the first power that raises ends the evaluation.\<close>

fun squared_deviations ::
  "(real \<Rightarrow> pyfloat) \<Rightarrow> pyfloat \<Rightarrow> pyfloat list \<Rightarrow> arith_error + pyfloat list" where
  "squared_deviations rnd mu [] = Inr []"
| "squared_deviations rnd mu (x # xs) =
     bind_arith (f_pow2 rnd (f_sub rnd x mu)) (\<lambda>sq.
     bind_arith (squared_deviations rnd mu xs) (\<lambda>sqs. Inr (sq # sqs)))"

text \<open>\<^verbatim>\<open>_std\<close> over a rounding; \<open>std_float\<close> is \<^verbatim>\<open>_std\<close> on doubles.\<close>

definition std_py :: "(real \<Rightarrow> pyfloat) \<Rightarrow> pyfloat list \<Rightarrow> arith_error + pyfloat" where
  "std_py rnd vals =
     (if length vals < 2 then Inr (Finite 0)
      else bind_arith (f_div_count rnd (f_sum rnd vals) (length vals)) (\<lambda>mean.
           bind_arith (squared_deviations rnd mean vals) (\<lambda>squares.
           bind_arith (f_div_count rnd (f_sum rnd squares) (length vals - 1)) (\<lambda>variance.
             f_sqrt rnd variance))))"

definition std_float :: "pyfloat list \<Rightarrow> arith_error + pyfloat" where
  "std_float vals = std_py fl vals"

text \<open>The results that are neither NaN nor negative.\<close>

fun nonneg_or_inf :: "pyfloat \<Rightarrow> bool" where
  "nonneg_or_inf (Finite r) = (0 \<le> r)"
| "nonneg_or_inf PosInf = True"
| "nonneg_or_inf NegInf = False"
| "nonneg_or_inf NaN = False"

subsection \<open>Monthly climatology\<close>

record annual_summary_stat =
  stat_mean :: real
  stat_min :: real
  stat_max :: real
  stat_std :: real

record month_value_stats = annual_summary_stat +
  n_years :: nat

text \<open>
  The innermost loop of the climatology: the values of one calendar month over the
  years of the range.
  \<^verbatim>\<open>
  values = []
  for year in range(start_year, end_year + 1):
      key = f"{year}{month_num:02d}"
      val = params_data[param].get(key, -999)
      if val != -999 and val is not None:
          values.append(val)
  \<close>
\<close>

definition month_param_values :: "series \<Rightarrow> int \<Rightarrow> int \<Rightarrow> nat \<Rightarrow> real list" where
  "month_param_values s start_year end_year month_num =
     fold (\<lambda>year values.
             let key = period_key year month_num;
                 val = dict_get s key (Num (- 999))
             in append_valid val values)
          [start_year..end_year] []"

text \<open>The loop over \<^verbatim>\<open>PARAMETERS\<close> that fills \<^verbatim>\<open>month_values\<close> for one month.\<close>

definition month_values_step ::
  "params_data \<Rightarrow> int \<Rightarrow> int \<Rightarrow> nat \<Rightarrow> string
     \<Rightarrow> (string \<rightharpoonup> month_value_stats) \<Rightarrow> (string \<rightharpoonup> month_value_stats)" where
  "month_values_step pd start_year end_year month_num param mv =
     (case pd param of
        None \<Rightarrow> mv
      | Some s \<Rightarrow>
          let values = month_param_values s start_year end_year month_num
          in if values \<noteq> []
             then mv(param \<mapsto>
                    \<lparr>stat_mean = py_round (sum_list values / real (length values)) 2,
                     stat_min = py_round (py_min values) 2,
                     stat_max = py_round (py_max values) 2,
                     stat_std = py_round (std values) 2,
                     n_years = length values\<rparr>)
             else mv)"

definition month_values ::
  "params_data \<Rightarrow> int \<Rightarrow> int \<Rightarrow> nat \<Rightarrow> (string \<rightharpoonup> month_value_stats)" where
  "month_values pd start_year end_year month_num =
     fold (month_values_step pd start_year end_year month_num) PARAMETERS Map.empty"

text \<open>\<^verbatim>\<open>for m_idx, month_name in enumerate(MONTH_NAMES): ... monthly_clim[month_name] = month_values\<close>\<close>

definition monthly_clim ::
  "params_data \<Rightarrow> int \<Rightarrow> int \<Rightarrow> (string \<rightharpoonup> (string \<rightharpoonup> month_value_stats))" where
  "monthly_clim pd start_year end_year =
     fold (\<lambda>(m_idx, month_name) mc.
             let month_num = m_idx + 1
             in mc(month_name \<mapsto> month_values pd start_year end_year month_num))
          (List.enumerate 0 MONTH_NAMES) Map.empty"

subsection \<open>Annual summary\<close>

text \<open>
  \<^verbatim>\<open>
  year_vals = []
  for month in range(1, 13):
      key = f"{year}{month:02d}"
      val = params_data[param].get(key, -999)
      if val != -999 and val is not None:
          year_vals.append(val)
  \<close>
\<close>

definition annual_year_vals :: "series \<Rightarrow> int \<Rightarrow> real list" where
  "annual_year_vals s year =
     fold (\<lambda>month year_vals.
             let key = period_key year month;
                 val = dict_get s key (Num (- 999))
             in append_valid val year_vals)
          [1..<13] []"

text \<open>\<^verbatim>\<open>sum(v * d for v, d in zip(vals, days_per_month))\<close>\<close>

definition day_weighted_sum :: "real list \<Rightarrow> real" where
  "day_weighted_sum vals = sum_list (map (\<lambda>(v, d). v * d) (zip vals days_per_month))"

text \<open>The body of the loop over the years, for one parameter (lines 144 to 159).\<close>

definition annual_year_step :: "string \<Rightarrow> series \<Rightarrow> int \<Rightarrow> real list \<Rightarrow> real list" where
  "annual_year_step param s year yearly_means =
     (let year_vals = annual_year_vals s year
      in if length year_vals = 12
         then (if param = ''PRECTOTCORR''
               then (let yearly_total = day_weighted_sum year_vals
                     in yearly_means @ [yearly_total])
               else yearly_means @ [sum_list year_vals / 12])
         else yearly_means)"

definition annual_yearly_means :: "string \<Rightarrow> series \<Rightarrow> int \<Rightarrow> int \<Rightarrow> real list" where
  "annual_yearly_means param s start_year end_year =
     fold (annual_year_step param s) [start_year..end_year] []"

definition annual_label :: "string \<Rightarrow> string" where
  "annual_label param =
     (if param = ''PRECTOTCORR'' then param @ ''_annual_total_mm''
      else param @ ''_annual_mean'')"

definition annual_step ::
  "params_data \<Rightarrow> int \<Rightarrow> int \<Rightarrow> string
     \<Rightarrow> (string \<rightharpoonup> annual_summary_stat) \<Rightarrow> (string \<rightharpoonup> annual_summary_stat)" where
  "annual_step pd start_year end_year param annual =
     (case pd param of
        None \<Rightarrow> annual
      | Some s \<Rightarrow>
          let yearly_means = annual_yearly_means param s start_year end_year
          in if yearly_means \<noteq> []
             then annual(annual_label param \<mapsto>
                    \<lparr>stat_mean = py_round (sum_list yearly_means / real (length yearly_means)) 2,
                     stat_min = py_round (py_min yearly_means) 2,
                     stat_max = py_round (py_max yearly_means) 2,
                     stat_std = py_round (std yearly_means) 2\<rparr>)
             else annual)"

definition annual_summary ::
  "params_data \<Rightarrow> int \<Rightarrow> int \<Rightarrow> (string \<rightharpoonup> annual_summary_stat)" where
  "annual_summary pd start_year end_year =
     fold (annual_step pd start_year end_year) PARAMETERS Map.empty"

subsection \<open>Year-by-year data\<close>

text \<open>
  \<^verbatim>\<open>
  vals = []
  for month in range(1, 13):
      key = f"{year}{month:02d}"
      val = params_data[param].get(key, -999)
      if val != -999 and val is not None:
          vals.append(val)
  \<close>
\<close>

definition yearly_vals :: "series \<Rightarrow> int \<Rightarrow> real list" where
  "yearly_vals s year =
     fold (\<lambda>month vals.
             let key = period_key year month;
                 val = dict_get s key (Num (- 999))
             in append_valid val vals)
          [1..<13] []"

text \<open>The body of the loop over \<^verbatim>\<open>PARAMETERS\<close> for one year (lines 174 to 189).\<close>

definition year_record_step ::
  "params_data \<Rightarrow> int \<Rightarrow> string \<Rightarrow> (string \<rightharpoonup> real) \<Rightarrow> (string \<rightharpoonup> real)" where
  "year_record_step pd year param year_record =
     (case pd param of
        None \<Rightarrow> year_record
      | Some s \<Rightarrow>
          let vals = yearly_vals s year
          in if vals \<noteq> []
             then (let year_record' =
                         (if param = ''PRECTOTCORR''
                          then year_record(param @ ''_annual_total_mm'' \<mapsto>
                                 py_round (day_weighted_sum vals) 1)
                          else year_record)
                   in year_record'(param @ ''_monthly_mean'' \<mapsto>
                        py_round (sum_list vals / real (length vals)) 2))
             else year_record)"

definition year_record :: "params_data \<Rightarrow> int \<Rightarrow> (string \<rightharpoonup> real)" where
  "year_record pd year = fold (year_record_step pd year) PARAMETERS Map.empty"

text \<open>\<^verbatim>\<open>for year in range(start_year, end_year + 1): ... yearly_data[str(year)] = year_record\<close>\<close>

definition yearly_data :: "params_data \<Rightarrow> int \<Rightarrow> int \<Rightarrow> (string \<rightharpoonup> (string \<rightharpoonup> real))" where
  "yearly_data pd start_year end_year =
     fold (\<lambda>year yd. yd(str_int year \<mapsto> year_record pd year))
          [start_year..end_year] Map.empty"

subsection \<open>Variability metrics\<close>

record precipitation_variability =
  cv :: "real option"
  drought_frequency :: real
  drought_threshold_mm :: real
  wet_frequency :: real
  wet_threshold_mm :: real

record temperature_variability =
  jan_mean_std :: real
  jul_mean_std :: real
  thermal_amplitude_mean :: real

record variability =
  precipitation :: "precipitation_variability option"
  temperature :: "temperature_variability option"

text \<open>
  The list of annual totals of the precipitation part (lines 210 to 221):
  \<^verbatim>\<open>
  annual_precip = []
  for year in range(start_year, end_year + 1):
      year_vals = []
      for month in range(1, 13):
          key = f"{year}{month:02d}"
          val = params_data["PRECTOTCORR"].get(key, -999)
          if val != -999 and val is not None:
              year_vals.append(val)
      if len(year_vals) == 12:
          total = sum(v * d for v, d in zip(year_vals, days_per_month))
          annual_precip.append(total)
  \<close>
\<close>

definition annual_precip_of :: "series \<Rightarrow> int \<Rightarrow> int \<Rightarrow> real list" where
  "annual_precip_of s start_year end_year =
     fold (\<lambda>year annual_precip.
             let year_vals =
                   fold (\<lambda>month year_vals.
                           let key = period_key year month;
                               val = dict_get s key (Num (- 999))
                           in append_valid val year_vals)
                        [1..<13] []
             in if length year_vals = 12
                then (let total = sum_list (map (\<lambda>(v, d). v * d) (zip year_vals days_per_month))
                      in annual_precip @ [total])
                else annual_precip)
          [start_year..end_year] []"

text \<open>The block computed from a non-empty list of annual totals (lines 224 to 243).\<close>

definition precipitation_block :: "real list \<Rightarrow> precipitation_variability" where
  "precipitation_block annual_precip =
     (let mean_p = sum_list annual_precip / real (length annual_precip);
          std_p = std annual_precip;
          cv = (if mean_p > 0 then Some (py_round (std_p / mean_p) 3) else None);
          drought_threshold = mean_p - std_p;
          drought_years = length (filter (\<lambda>p. p < drought_threshold) annual_precip);
          drought_freq = py_round (real drought_years / real (length annual_precip)) 3;
          wet_threshold = mean_p + std_p;
          wet_years = length (filter (\<lambda>p. p > wet_threshold) annual_precip);
          wet_freq = py_round (real wet_years / real (length annual_precip)) 3
      in \<lparr>cv = cv,
          drought_frequency = drought_freq,
          drought_threshold_mm = py_round drought_threshold 1,
          wet_frequency = wet_freq,
          wet_threshold_mm = py_round wet_threshold 1\<rparr>)"

definition precipitation_part :: "params_data \<Rightarrow> int \<Rightarrow> int \<Rightarrow> precipitation_variability option" where
  "precipitation_part pd start_year end_year =
     (case pd ''PRECTOTCORR'' of
        None \<Rightarrow> None
      | Some s \<Rightarrow>
          let annual_precip = annual_precip_of s start_year end_year
          in if annual_precip \<noteq> [] then Some (precipitation_block annual_precip) else None)"

text \<open>
  The temperature part collects with a different guard (lines 250 to 258); whatever
  passes it is appended, so these lists are lists of raw values:
  \<^verbatim>\<open>
  jul_val = params_data["T2M"].get(jul_key, -999)
  jan_val = params_data["T2M"].get(jan_key, -999)
  if jul_val != -999:
      jul_temps.append(jul_val)
  if jan_val != -999:
      jan_temps.append(jan_val)
  \<close>
\<close>

definition jul_jan_temps :: "series \<Rightarrow> int \<Rightarrow> int \<Rightarrow> jval list \<times> jval list" where
  "jul_jan_temps s start_year end_year =
     fold (\<lambda>year (jul_temps, jan_temps).
             let jul_key = str_int year @ ''07'';
                 jan_key = str_int year @ ''01'';
                 jul_val = dict_get s jul_key (Num (- 999));
                 jan_val = dict_get s jan_key (Num (- 999))
             in ((if jul_val \<noteq> Num (- 999) then jul_temps @ [jul_val] else jul_temps),
                 (if jan_val \<noteq> Num (- 999) then jan_temps @ [jan_val] else jan_temps)))
          [start_year..end_year] ([], [])"

text \<open>
  Arithmetic on a list of raw values: \<^verbatim>\<open>sum\<close> raises \<^verbatim>\<open>TypeError\<close> when it meets
  \<^verbatim>\<open>None\<close>; \<^verbatim>\<open>_std\<close> returns 0.0 before any arithmetic when the list has fewer than 2
  entries, and raises from its \<^verbatim>\<open>sum\<close> otherwise.
\<close>

fun nums :: "jval list \<Rightarrow> real list option" where
  "nums [] = Some []"
| "nums (Null # vs) = None"
| "nums (Num r # vs) = (case nums vs of None \<Rightarrow> None | Some rs \<Rightarrow> Some (r # rs))"

definition raw_sum :: "jval list \<Rightarrow> error + real" where
  "raw_sum vs = (case nums vs of None \<Rightarrow> Inl TypeError | Some rs \<Rightarrow> Inr (sum_list rs))"

definition raw_std :: "jval list \<Rightarrow> error + real" where
  "raw_std vs =
     (if length vs < 2 then Inr 0
      else case nums vs of None \<Rightarrow> Inl TypeError | Some rs \<Rightarrow> Inr (std rs))"

definition temperature_part :: "params_data \<Rightarrow> int \<Rightarrow> int \<Rightarrow> error + temperature_variability option" where
  "temperature_part pd start_year end_year =
     (case pd ''T2M'' of
        None \<Rightarrow> Inr None
      | Some s \<Rightarrow>
          (case jul_jan_temps s start_year end_year of (jul_temps, jan_temps) \<Rightarrow>
             if jul_temps \<noteq> [] \<and> jan_temps \<noteq> []
             then bind_err (raw_std jan_temps) (\<lambda>jan_std.
                  bind_err (raw_std jul_temps) (\<lambda>jul_std.
                  bind_err (raw_sum jul_temps) (\<lambda>jul_sum.
                  bind_err (raw_sum jan_temps) (\<lambda>jan_sum.
                    Inr (Some \<lparr>jan_mean_std = py_round jan_std 2,
                               jul_mean_std = py_round jul_std 2,
                               thermal_amplitude_mean =
                                 py_round (jul_sum / real (length jul_temps)
                                            - jan_sum / real (length jan_temps)) 2\<rparr>)))))
             else Inr None))"

definition compute_variability :: "params_data \<Rightarrow> int \<Rightarrow> int \<Rightarrow> error + variability" where
  "compute_variability pd start_year end_year =
     (let p = precipitation_part pd start_year end_year
      in bind_err (temperature_part pd start_year end_year) (\<lambda>t.
           Inr \<lparr>precipitation = p, temperature = t\<rparr>))"

subsection \<open>The profile of one zone\<close>

record profile =
  monthly_climatology :: "string \<rightharpoonup> (string \<rightharpoonup> month_value_stats)"
  annual_summary_of :: "string \<rightharpoonup> annual_summary_stat"
  yearly_data_of :: "string \<rightharpoonup> (string \<rightharpoonup> real)"
  variability_of :: variability

text \<open>
  \<^verbatim>\<open>params_data = api_response["properties"]["parameter"]\<close> raises \<^verbatim>\<open>KeyError\<close> on a
  response without these containers; the rest is the four reductions.
\<close>

definition process_monthly_data :: "api_response \<Rightarrow> int \<Rightarrow> int \<Rightarrow> error + profile" where
  "process_monthly_data api_response start_year end_year =
     bind_err (dict_index api_response ''properties'') (\<lambda>properties.
     bind_err (dict_index properties ''parameter'') (\<lambda>params_data.
       let mc = monthly_clim params_data start_year end_year;
           annual = annual_summary params_data start_year end_year;
           yd = yearly_data params_data start_year end_year
       in bind_err (compute_variability params_data start_year end_year) (\<lambda>v.
            Inr \<lparr>monthly_climatology = mc,
                 annual_summary_of = annual,
                 yearly_data_of = yd,
                 variability_of = v\<rparr>)))"

subsection \<open>The zone loop of \<^verbatim>\<open>main\<close>\<close>

record point =
  lat :: real
  lon :: real
  label :: string

record zone_data =
  name :: string
  representative_point :: point

text \<open>The values a zone document holds under its keys.\<close>

datatype doc_value = Str string | Point point | Profile profile

type_synonym zone_document = "string \<rightharpoonup> doc_value"

text \<open>
  The fetch collaborator is external: it is a parameter \<open>fetch\<close> that, from the state
  \<open>w\<close> of the outside world and the arguments of \<^verbatim>\<open>fetch_nasa_power\<close>, returns the
  response or the exception raised, and the next state of the world. \<open>str_e\<close> is
  Python's \<^verbatim>\<open>str\<close> on the exception caught.

  \<^verbatim>\<open>
  for zone_id, zone_data in zones.items():
      pt = zone_data["representative_point"]
      try:
          raw = fetch_nasa_power(pt["lat"], pt["lon"], args.start, args.end)
          profile = process_monthly_data(raw, args.start, args.end)
          climate_profiles["zones"][zone_id] = {
              "zone_name": zone_data["name"],
              "representative_point": pt,
              "climate_profile": profile }
      except Exception as e:
          climate_profiles["zones"][zone_id] = {
              "zone_name": zone_data["name"],
              "representative_point": pt,
              "error": str(e) }
  \<close>
\<close>

type_synonym 'w fetcher = "'w \<Rightarrow> real \<Rightarrow> real \<Rightarrow> int \<Rightarrow> int \<Rightarrow> (error + api_response) \<times> 'w"

text \<open>The outcome of the \<^verbatim>\<open>try\<close> block for one zone.\<close>

definition try_zone :: "'w fetcher \<Rightarrow> int \<Rightarrow> int \<Rightarrow> 'w \<Rightarrow> zone_data \<Rightarrow> (error + profile) \<times> 'w" where
  "try_zone fetch start_year end_year w zd =
     (let pt = representative_point zd
      in case fetch w (lat pt) (lon pt) start_year end_year of (r, w') \<Rightarrow>
           (bind_err r (\<lambda>raw. process_monthly_data raw start_year end_year), w'))"

definition zone_step ::
  "'w fetcher \<Rightarrow> (error \<Rightarrow> string) \<Rightarrow> int \<Rightarrow> int \<Rightarrow> string \<times> zone_data
     \<Rightarrow> 'w \<times> (string \<rightharpoonup> zone_document) \<Rightarrow> 'w \<times> (string \<rightharpoonup> zone_document)" where
  "zone_step fetch str_e start_year end_year z st =
     (case z of (zone_id, zd) \<Rightarrow>
      case st of (w, zones_out) \<Rightarrow>
        let pt = representative_point zd
        in case try_zone fetch start_year end_year w zd of
             (Inr prof, w') \<Rightarrow>
               (w', zones_out(zone_id \<mapsto>
                      [''zone_name'' \<mapsto> Str (name zd),
                       ''representative_point'' \<mapsto> Point pt,
                       ''climate_profile'' \<mapsto> Profile prof]))
           | (Inl e, w') \<Rightarrow>
               (w', zones_out(zone_id \<mapsto>
                      [''zone_name'' \<mapsto> Str (name zd),
                       ''representative_point'' \<mapsto> Point pt,
                       ''error'' \<mapsto> Str (str_e e)])))"

definition zone_loop ::
  "'w fetcher \<Rightarrow> (error \<Rightarrow> string) \<Rightarrow> int \<Rightarrow> int \<Rightarrow> (string \<times> zone_data) list
     \<Rightarrow> 'w \<Rightarrow> 'w \<times> (string \<rightharpoonup> zone_document)" where
  "zone_loop fetch str_e start_year end_year zones w =
     fold (zone_step fetch str_e start_year end_year) zones (w, Map.empty)"

subsection \<open>Notions of the specification\<close>

text \<open>
  The specification's missing entry: a key that is absent, an entry that is null, or the
  sentinel \<open>-999\<close>.
\<close>

fun missing :: "jval option \<Rightarrow> bool" where
  "missing None = True"
| "missing (Some Null) = True"
| "missing (Some (Num r)) = (r = - 999)"

text \<open>
  The specification's available monthly values of one year: the values of the months
  January to December that are not missing, in calendar order.
\<close>

definition available_values :: "series \<Rightarrow> int \<Rightarrow> real list" where
  "available_values s year =
     concat (map (\<lambda>month. case s (period_key year month) of
                               Some (Num r) \<Rightarrow> (if missing (Some (Num r)) then [] else [r])
                             | _ \<Rightarrow> [])
                 [1..<13])"

text \<open>
  The specification's day-weighted sum over the available months of one year: every
  available month's value times the day count of that same calendar month.
\<close>

definition aligned_day_weighted_sum :: "series \<Rightarrow> int \<Rightarrow> real" where
  "aligned_day_weighted_sum s year =
     sum_list (map (\<lambda>(month, d). case s (period_key year month) of
                                     Some (Num r) \<Rightarrow> (if missing (Some (Num r)) then 0 else r * d)
                                   | _ \<Rightarrow> 0)
                   (zip [1..<13] days_per_month))"

text \<open>The twelve values of \<^verbatim>\<open>f"{month:02d}"\<close> for the months 1 to 12.\<close>

definition month_suffixes :: "string list" where
  "month_suffixes =
     [''01'', ''02'', ''03'', ''04'', ''05'', ''06'',
      ''07'', ''08'', ''09'', ''10'', ''11'', ''12'']"

subsection \<open>Example records\<close>

text \<open>Precipitation of 1.0 mm/day in every month of 2021.\<close>

definition precip_ones_2021 :: series where
  "precip_ones_2021 = map_of (map (\<lambda>mm. (''2021'' @ mm, Num 1)) month_suffixes)"

text \<open>
  Mean temperature with the values 1 to 11 in January to November 2021, null in December
  2021, and the sentinel in December 2022.
\<close>

definition t2m_eleven_2021 :: series where
  "t2m_eleven_2021 =
     map_of [(''202101'', Num 1), (''202102'', Num 2), (''202103'', Num 3), (''202104'', Num 4),
             (''202105'', Num 5), (''202106'', Num 6), (''202107'', Num 7), (''202108'', Num 8),
             (''202109'', Num 9), (''202110'', Num 10), (''202111'', Num 11), (''202112'', Null),
             (''202212'', Num (- 999))]"

text \<open>Precipitation of 1.0 mm/day in February 2021 and no other entry.\<close>

definition precip_feb_only_2021 :: series where
  "precip_feb_only_2021 = map_of [(''202102'', Num 1)]"

text \<open>Mean temperature of 20 in July 2021 with a null entry for January 2021.\<close>

definition t2m_null_jan_2021 :: series where
  "t2m_null_jan_2021 = map_of [(''202101'', Null), (''202107'', Num 20)]"

text \<open>The same with the sentinel for January 2021.\<close>

definition t2m_sentinel_jan_2021 :: series where
  "t2m_sentinel_jan_2021 = map_of [(''202101'', Num (- 999)), (''202107'', Num 20)]"

text \<open>The same with no entry for January 2021.\<close>

definition t2m_absent_jan_2021 :: series where
  "t2m_absent_jan_2021 = map_of [(''202107'', Num 20)]"

text \<open>A well-formed response without any parameter.\<close>

definition response_empty_params :: api_response where
  "response_empty_params = [''properties'' \<mapsto> [''parameter'' \<mapsto> Map.empty]]"

text \<open>A fetch collaborator that fails for a point of negative latitude and counts its calls.\<close>

definition fetch_by_latitude :: "nat fetcher" where
  "fetch_by_latitude w latitude longitude start_year end_year =
     ((if latitude < 0 then Inl (FetchError ''HTTP Error 500: Internal Server Error'')
       else Inr response_empty_params), Suc w)"

text \<open>A rendering of exceptions as strings.\<close>

definition str_of_error :: "error \<Rightarrow> string" where
  "str_of_error e = (case e of KeyError k \<Rightarrow> k | TypeError \<Rightarrow> ''unsupported operand type(s)''
                     | FetchError m \<Rightarrow> m)"

text \<open>A registry of three zones; the second has a negative latitude.\<close>

definition three_zones :: "(string \<times> zone_data) list" where
  "three_zones =
     [(''zone_a'', \<lparr>name = ''A'', representative_point = \<lparr>lat = 34, lon = - 6, label = ''a''\<rparr>\<rparr>),
      (''zone_b'', \<lparr>name = ''B'', representative_point = \<lparr>lat = - 1, lon = - 7, label = ''b''\<rparr>\<rparr>),
      (''zone_c'', \<lparr>name = ''C'', representative_point = \<lparr>lat = 31, lon = - 8, label = ''c''\<rparr>\<rparr>)]"

text \<open>The doubles written \<^verbatim>\<open>1e308\<close> and \<^verbatim>\<open>1e200\<close>.\<close>

definition double_1e308 :: real where
  "double_1e308 = 5010420900022432 * 2 ^ 971"

definition double_1e200 :: real where
  "double_1e200 = 5883593420661338 * 2 ^ 612"

text \<open>
  Precipitation for 2001 to 2005 with every month present: 2.5 mm/day in January, 0.75 in
  April and 0 in the other months, and five times as much in 2005. The annual totals are
  100, 100, 100, 100 and 500.
\<close>

definition precip_100_500 :: series where
  "precip_100_500 key =
     (let year = take 4 key; mm = drop 4 key;
          k = (if year = ''2005'' then 5 else 1)
      in if year \<in> set [''2001'', ''2002'', ''2003'', ''2004'', ''2005''] \<and> mm \<in> set month_suffixes
         then Some (Num (if mm = ''01'' then 2.5 * k else if mm = ''04'' then 0.75 * k else 0))
         else None)"

section \<open>Properties\<close>

subsection \<open>Auxiliary facts\<close>

lemma sum_sq_nonneg: "0 \<le> sum_list (map (\<lambda>x. (x - m) ^ 2) (xs::real list))"
  by (induction xs) auto

lemma std_nonneg: "0 \<le> std values"
  by (simp add: std_def Let_def sum_sq_nonneg)

lemma py_round_between:
  assumes "of_int k - 1 / 2 < x * 10 ^ n" "x * 10 ^ n < of_int k + 1 / 2"
  shows "py_round x n = of_int k / 10 ^ n"
proof (cases "of_int k \<le> x * 10 ^ n")
  case True
  then have "\<lfloor>x * 10 ^ n\<rfloor> = k" using assms by linarith
  then show ?thesis using assms True by (simp add: py_round_def Let_def)
next
  case False
  then have f: "\<lfloor>x * 10 ^ n\<rfloor> = k - 1" using assms by linarith
  have "1 / 2 < x * 10 ^ n - of_int (k - 1)" using assms by simp
  then show ?thesis using assms False f by (simp add: py_round_def Let_def)
qed

lemma fold_append_valid:
  "fold (\<lambda>k vs. append_valid (f k) vs) ks acc
     = acc @ concat (map (\<lambda>k. append_valid (f k) []) ks)"
proof (induction ks arbitrary: acc)
  case Nil
  then show ?case by simp
next
  case (Cons k ks)
  have "append_valid (f k) acc = acc @ append_valid (f k) []"
    by (cases "f k") auto
  then show ?case using Cons by simp
qed

lemma digit_char_inj: "a < 10 \<Longrightarrow> b < 10 \<Longrightarrow> digit_char a = digit_char b \<Longrightarrow> a = b"
proof -
  assume "a < 10" "b < 10" "digit_char a = digit_char b"
  moreover have "distinct ''0123456789''" by simp
  ultimately show "a = b"
    unfolding digit_char_def by (simp add: nth_eq_iff_index_eq)
qed

lemma string_of_nat_nonempty: "string_of_nat n \<noteq> []"
  by (subst string_of_nat.simps) simp

lemma string_of_nat_inj: "string_of_nat n = string_of_nat m \<Longrightarrow> n = m"
proof (induction n arbitrary: m rule: string_of_nat.induct)
  case (1 n)
  show ?case
  proof (cases "n < 10")
    case True
    then have sn: "string_of_nat n = [digit_char n]" by (subst string_of_nat.simps) simp
    show ?thesis
    proof (cases "m < 10")
      case mt: True
      then have "string_of_nat m = [digit_char m]" by (subst string_of_nat.simps) simp
      then show ?thesis using sn "1.prems" True mt digit_char_inj by simp
    next
      case mf: False
      then have "string_of_nat m = string_of_nat (m div 10) @ [digit_char (m mod 10)]"
        by (subst string_of_nat.simps) simp
      then show ?thesis using sn "1.prems" string_of_nat_nonempty[of "m div 10"] by simp
    qed
  next
    case False
    then have sn: "string_of_nat n = string_of_nat (n div 10) @ [digit_char (n mod 10)]"
      by (subst string_of_nat.simps) simp
    show ?thesis
    proof (cases "m < 10")
      case mt: True
      then have "string_of_nat m = [digit_char m]" by (subst string_of_nat.simps) simp
      then show ?thesis using sn "1.prems" string_of_nat_nonempty[of "n div 10"] by simp
    next
      case mf: False
      then have sm: "string_of_nat m = string_of_nat (m div 10) @ [digit_char (m mod 10)]"
        by (subst string_of_nat.simps) simp
      from sn sm "1.prems" have e1: "string_of_nat (n div 10) = string_of_nat (m div 10)"
        and e2: "digit_char (n mod 10) = digit_char (m mod 10)" by simp_all
      from "1.IH"[OF False e1] have d: "n div 10 = m div 10" .
      from e2 have r: "n mod 10 = m mod 10" by (intro digit_char_inj) simp_all
      from d r show ?thesis by (metis div_mult_mod_eq)
    qed
  qed
qed

lemma digit_char_not_minus: "d < 10 \<Longrightarrow> digit_char d \<noteq> CHR ''-''"
proof -
  assume "d < 10"
  then have "digit_char d \<in> set ''0123456789''"
    unfolding digit_char_def by (intro nth_mem) simp
  moreover have "CHR ''-'' \<notin> set ''0123456789''" by simp
  ultimately show ?thesis by metis
qed

lemma string_of_nat_hd: "hd (string_of_nat n) \<noteq> CHR ''-''"
proof (induction n rule: string_of_nat.induct)
  case (1 n)
  show ?case
  proof (cases "n < 10")
    case True
    then show ?thesis by (subst string_of_nat.simps) (simp add: digit_char_not_minus)
  next
    case False
    then show ?thesis using 1 string_of_nat_nonempty[of "n div 10"]
      by (subst string_of_nat.simps) simp
  qed
qed

lemma str_int_inj: "str_int i = str_int j \<Longrightarrow> i = j"
proof -
  assume e: "str_int i = str_int j"
  show ?thesis
  proof (cases "i < 0")
    case True
    show ?thesis
    proof (cases "j < 0")
      case jt: True
      with True e have "nat (- i) = nat (- j)" by (simp add: str_int_def string_of_nat_inj)
      with True jt show ?thesis by simp
    next
      case jf: False
      with True e have "CHR ''-'' # string_of_nat (nat (- i)) = string_of_nat (nat j)"
        by (simp add: str_int_def)
      then have "hd (string_of_nat (nat j)) = CHR ''-''" by (metis list.sel(1))
      then show ?thesis using string_of_nat_hd by blast
    qed
  next
    case False
    show ?thesis
    proof (cases "j < 0")
      case jt: True
      with False e have "string_of_nat (nat i) = CHR ''-'' # string_of_nat (nat (- j))"
        by (simp add: str_int_def)
      then have "hd (string_of_nat (nat i)) = CHR ''-''" by (metis list.sel(1))
      then show ?thesis using string_of_nat_hd by blast
    next
      case jf: False
      with False e have "nat i = nat j" by (simp add: str_int_def string_of_nat_inj)
      with False jf show ?thesis by simp
    qed
  qed
qed

subsection \<open>The sample standard deviation\<close>

lemma round_half_even_of_int: "round_half_even (of_int k) = k"
  by (simp add: round_half_even_def)

lemma round_half_even_nonneg: "0 \<le> y \<Longrightarrow> 0 \<le> round_half_even y"
  by (auto simp add: round_half_even_def Let_def)

lemma two_powi_less_D:
  assumes "(2::real) powi x < 2 powi y"
  shows "x < y"
proof (rule ccontr)
  assume "\<not> x < y"
  then have "(2::real) powi y \<le> 2 powi x" by (intro power_int_increasing) simp_all
  with assms show False by simp
qed

lemma binade_below_lower: "- 1022 \<le> binade_below a n"
  by (induction n) auto

lemma binade_below_eq:
  assumes "2 powi k \<le> a" "a < 2 powi (k + 1)" "- 1022 \<le> k" "k \<le> int n - 1022"
  shows "binade_below a n = k"
  using assms
proof (induction n)
  case 0
  then show ?case by simp
next
  case (Suc n)
  show ?case
  proof (cases "2 powi (int (Suc n) - 1022) \<le> a")
    case True
    with Suc.prems(2) have "(2::real) powi (int (Suc n) - 1022) < 2 powi (k + 1)" by simp
    then have "int (Suc n) - 1022 < k + 1" by (rule two_powi_less_D)
    with Suc.prems(4) have "k = int (Suc n) - 1022" by simp
    with True show ?thesis by simp
  next
    case False
    with Suc.prems(1) have "k \<noteq> int (Suc n) - 1022" by auto
    with Suc.prems(4) have "k \<le> int n - 1022" by simp
    with Suc False show ?thesis by simp
  qed
qed

lemma binade_below_subnormal:
  assumes "a < 2 powi (- 1022)"
  shows "binade_below a n = - 1022"
proof (induction n)
  case 0
  then show ?case by simp
next
  case (Suc n)
  have "(2::real) powi (- 1022) \<le> 2 powi (int (Suc n) - 1022)"
    by (rule power_int_increasing) simp_all
  with assms have "\<not> 2 powi (int (Suc n) - 1022) \<le> a" by simp
  with Suc show ?case by simp
qed

lemma binade_below_bounds:
  assumes "2 powi (- 1022) \<le> a" "a < 2 powi (int n - 1021)"
  shows "2 powi (binade_below a n) \<le> a \<and> a < 2 powi (binade_below a n + 1)"
  using assms
proof (induction n)
  case 0
  then show ?case by simp
next
  case (Suc n)
  show ?case
  proof (cases "2 powi (int (Suc n) - 1022) \<le> a")
    case True
    then show ?thesis using Suc.prems(2) by (simp add: algebra_simps)
  next
    case False
    then have "a < 2 powi (int n - 1021)" by (simp add: algebra_simps)
    with Suc.IH Suc.prems(1) False show ?thesis by simp
  qed
qed


lemma binade_eq:
  assumes "2 powi k \<le> a" "a < 2 powi (k + 1)" "- 1022 \<le> k" "k \<le> 1023"
  shows "binade a = k"
  unfolding binade_def using assms by (intro binade_below_eq) simp_all

lemma binade_subnormal: "a < 2 powi (- 1022) \<Longrightarrow> binade a = - 1022"
  unfolding binade_def by (rule binade_below_subnormal)

lemma binade_bounds:
  assumes "2 powi (- 1022) \<le> a" "a < 2 ^ 1024"
  shows "2 powi (binade a) \<le> a \<and> a < 2 powi (binade a + 1)"
  unfolding binade_def using assms by (intro binade_below_bounds) simp_all

lemma binade_lower: "- 1022 \<le> binade a"
  unfolding binade_def by (rule binade_below_lower)

lemma ulp_pos: "0 < ulp r"
  by (simp add: ulp_def)

lemma overflow_threshold_less: "overflow_threshold < 2 ^ 1024"
  by (simp add: overflow_threshold_def)

lemma overflow_threshold_pos: "0 < overflow_threshold"
  by (simp add: overflow_threshold_def)

lemma round_nearest_0: "round_nearest 0 = 0"
  by (simp add: round_nearest_def round_half_even_def)

lemma round_nearest_nonneg: "0 \<le> r \<Longrightarrow> 0 \<le> round_nearest r"
  unfolding round_nearest_def using ulp_pos[of r]
  by (intro mult_nonneg_nonneg) (simp_all add: round_half_even_nonneg)

lemma round_nearest_multiple:
  assumes "r = of_int k * ulp r"
  shows "round_nearest r = r"
proof -
  have "r / ulp r = of_int k" using assms ulp_pos[of r] by (simp add: field_simps)
  then show ?thesis using assms by (simp add: round_nearest_def round_half_even_of_int)
qed

lemma round_nearest_fixed:
  assumes "round_nearest r = r"
  shows "\<exists>k. r = of_int k * ulp r"
  using assms unfolding round_nearest_def by metis

lemma round_nearest_normal:
  assumes "2 ^ 52 \<le> m" "m < 2 ^ 53" "- 1074 \<le> e" "e \<le> 971"
  shows "round_nearest (of_int m * 2 powi e) = of_int m * 2 powi e"
proof -
  let ?r = "of_int m * (2::real) powi e"
  have pos: "0 < ?r" using assms(1) by (simp add: zero_less_mult_iff)
  have lo: "2 powi (e + 52) \<le> ?r"
  proof -
    have "(2::real) powi (e + 52) = 2 ^ 52 * 2 powi e" by (simp add: power_int_add)
    also have "\<dots> \<le> of_int m * 2 powi e"
      using assms(1) by (intro mult_right_mono) (simp_all add: of_int_le_numeral_power_cancel_iff)
    finally show ?thesis .
  qed
  have hi: "?r < 2 powi (e + 52 + 1)"
  proof -
    have "of_int m * (2::real) powi e < 2 ^ 53 * 2 powi e"
      using assms(2) by (intro mult_strict_right_mono) (simp_all add: of_int_less_numeral_power_cancel_iff)
    also have "\<dots> = 2 powi (e + 52 + 1)" by (simp add: power_int_add)
    finally show ?thesis .
  qed
  have "binade \<bar>?r\<bar> = e + 52"
    using pos lo hi assms(3,4) by (intro binade_eq) simp_all
  then have "ulp ?r = 2 powi e" by (simp add: ulp_def)
  then show ?thesis by (intro round_nearest_multiple[of _ m]) simp
qed

lemma round_nearest_twice:
  assumes "is_double a" "\<bar>2 * a\<bar> < overflow_threshold"
  shows "round_nearest (2 * a) = 2 * a"
proof -
  let ?b = "\<bar>a\<bar>"
  from assms(1) obtain k where k: "a = of_int k * ulp a"
    unfolding is_double_def using round_nearest_fixed by blast
  have b2: "2 * ?b < 2 ^ 1024" using assms(2) overflow_threshold_less by simp
  show ?thesis
  proof (cases "?b < 2 powi (- 1022)")
    case True
    then have ua: "ulp a = 2 powi (- 1022 - 52)" by (simp add: ulp_def binade_subnormal)
    have "binade (2 * ?b) = - 1022"
    proof (cases "2 * ?b < 2 powi (- 1022)")
      case True
      then show ?thesis by (rule binade_subnormal)
    next
      case False
      moreover have "2 * ?b < 2 powi (- 1022 + 1)"
      proof -
        have "2 * ?b < 2 * 2 powi (- 1022)" using True by simp
        also have "\<dots> = 2 powi (- 1022 + 1)" by (simp add: power_int_add)
        finally show ?thesis .
      qed
      ultimately show ?thesis by (intro binade_eq) simp_all
    qed
    then have "ulp (2 * a) = ulp a" using ua by (simp add: ulp_def abs_mult)
    then have "2 * a = of_int (2 * k) * ulp (2 * a)" using k by simp
    then show ?thesis by (rule round_nearest_multiple)
  next
    case False
    then have lo: "2 powi (- 1022) \<le> ?b" by simp
    have "?b < 2 ^ 1024" using b2 by simp
    with lo have bb: "2 powi (binade ?b) \<le> ?b \<and> ?b < 2 powi (binade ?b + 1)"
      by (rule binade_bounds)
    let ?e = "binade ?b"
    have l2: "2 powi (?e + 1) \<le> 2 * ?b"
    proof -
      have "(2::real) powi (?e + 1) = 2 * 2 powi ?e" by (simp add: power_int_add)
      also have "\<dots> \<le> 2 * ?b" using bb by simp
      finally show ?thesis .
    qed
    have h2: "2 * ?b < 2 powi (?e + 1 + 1)"
    proof -
      have "2 * ?b < 2 * 2 powi (?e + 1)" using bb by simp
      also have "\<dots> = 2 powi (?e + 1 + 1)" by (simp add: power_int_add)
      finally show ?thesis .
    qed
    have "(2::real) powi (?e + 1) < 2 powi 1024" using l2 b2 by simp
    then have "?e + 1 < 1024" by (rule two_powi_less_D)
    then have "binade (2 * ?b) = ?e + 1"
      using l2 h2 binade_lower[of ?b] by (intro binade_eq) simp_all
    then have "ulp (2 * a) = 2 * ulp a"
      by (simp add: ulp_def abs_mult power_int_add power_int_diff)
    then have "2 * a = of_int k * ulp (2 * a)" using k by simp
    then show ?thesis by (rule round_nearest_multiple)
  qed
qed

lemma fl_double: "is_double a \<Longrightarrow> fl a = Finite a"
  by (simp add: fl_def is_double_def)

lemma fl_0: "fl 0 = Finite 0"
  using overflow_threshold_pos by (simp add: fl_def round_nearest_0 not_le)

lemma std_float_two_equal:
  assumes "is_double a" "\<bar>a + a\<bar> < overflow_threshold"
  shows "std_float [Finite a, Finite a] = Inr (Finite 0)"
proof -
  have t: "fl (2 * a) = Finite (2 * a)"
    using assms round_nearest_twice[of a] by (simp add: fl_def)
  have d: "f_sub fl (Finite a) (Finite a) = Finite 0"
    by (simp add: f_sub_def fl_0)
  show ?thesis
    unfolding std_float_def std_py_def
    using assms(1) by (simp add: t d bind_arith_def fl_0 fl_double f_sum_def)
qed

lemma fold_add_exact:
  "fold (\<lambda>x total. f_add Finite total x) (map Finite rs) (Finite acc) = Finite (acc + sum_list rs)"
  by (induction rs arbitrary: acc) (simp_all add: add.assoc)

lemma squared_deviations_exact:
  "squared_deviations Finite (Finite m) (map Finite rs)
     = Inr (map Finite (map (\<lambda>x. (x - m) ^ 2) rs))"
  by (induction rs) (simp_all add: f_sub_def bind_arith_def power2_eq_square)

lemma f_div_count_finite:
  "0 < n \<Longrightarrow> f_div_count rnd (Finite a) n = Inr (rnd (a / real n))"
  by (cases n) simp_all

lemma std_py_exact: "std_py Finite (map Finite rs) = Inr (Finite (std rs))"
proof (cases "length rs < 2")
  case True
  then show ?thesis by (simp add: std_py_def std_def)
next
  case False
  then have n: "0 < length rs" "0 < length rs - 1" by arith+
  define m where "m = sum_list rs / real (length rs)"
  define sqs where "sqs = map (\<lambda>x. (x - m) ^ 2) rs"
  define v where "v = sum_list sqs / real (length rs - 1)"
  have v0: "0 \<le> v"
    unfolding v_def sqs_def using sum_sq_nonneg by (intro divide_nonneg_nonneg) simp_all
  have e1: "f_sum Finite (map Finite rs) = Finite (sum_list rs)"
    by (simp add: f_sum_def fold_add_exact)
  have e2: "f_div_count Finite (Finite (sum_list rs)) (length rs) = Inr (Finite m)"
    using n(1) by (simp add: f_div_count_finite m_def)
  have e3: "squared_deviations Finite (Finite m) (map Finite rs) = Inr (map Finite sqs)"
    unfolding sqs_def by (rule squared_deviations_exact)
  have e4: "f_sum Finite (map Finite sqs) = Finite (sum_list sqs)"
    by (simp add: f_sum_def fold_add_exact)
  have e5: "f_div_count Finite (Finite (sum_list sqs)) (length rs - 1) = Inr (Finite v)"
    using n(2) by (simp add: f_div_count_finite v_def)
  have e6: "f_sqrt Finite (Finite v) = Inr (Finite (sqrt v))"
    using v0 by simp
  have "std_py Finite (map Finite rs) = Inr (Finite (sqrt v))"
    unfolding std_py_def
    by (simp only: length_map False if_False e1 e2 e3 e4 e5 e6 bind_arith_def sum.case)
  moreover have "std rs = sqrt v"
    using False by (simp add: std_def Let_def v_def sqs_def m_def)
  ultimately show ?thesis by simp
qed

lemma fl_not_nan: "fl r \<noteq> NaN"
  by (simp add: fl_def)

lemma fl_nonneg: "0 \<le> r \<Longrightarrow> nonneg_or_inf (fl r)"
  using overflow_threshold_pos by (auto simp add: fl_def round_nearest_nonneg)

lemma f_add_finite_not_nan: "t0 \<noteq> NaN \<Longrightarrow> f_add fl t0 (Finite b) \<noteq> NaN"
  by (cases t0) (simp_all add: fl_not_nan)

lemma fold_add_not_nan:
  "t0 \<noteq> NaN \<Longrightarrow> fold (\<lambda>x total. f_add fl total x) (map Finite rs) t0 \<noteq> NaN"
  by (induction rs arbitrary: t0) (simp_all add: f_add_finite_not_nan)

lemma f_sum_finite_not_nan: "f_sum fl (map Finite rs) \<noteq> NaN"
  unfolding f_sum_def by (rule fold_add_not_nan) simp

lemma f_div_count_not_nan:
  "x \<noteq> NaN \<Longrightarrow> 0 < n \<Longrightarrow> \<exists>m. f_div_count fl x n = Inr m \<and> m \<noteq> NaN"
  by (cases x; cases n) (simp_all add: fl_not_nan)

lemma f_pow2_deviation:
  assumes "m \<noteq> NaN"
  shows "f_pow2 fl (f_sub fl (Finite x) m) = Inl OverflowError
       \<or> (\<exists>sq. f_pow2 fl (f_sub fl (Finite x) m) = Inr sq \<and> nonneg_or_inf sq)"
proof -
  have d: "f_sub fl (Finite x) m \<noteq> NaN"
    using assms by (cases m) (simp_all add: f_sub_def fl_not_nan)
  show ?thesis
  proof (cases "f_sub fl (Finite x) m")
    case (Finite a)
    show ?thesis
    proof (cases "overflow_threshold \<le> \<bar>a * a\<bar>")
      case True
      then show ?thesis using Finite by (simp add: fl_def)
    next
      case False
      then show ?thesis using Finite by (simp add: fl_def round_nearest_nonneg)
    qed
  next
    case PosInf
    then show ?thesis by simp
  next
    case NegInf
    then show ?thesis by simp
  next
    case NaN
    then show ?thesis using d by simp
  qed
qed

lemma squared_deviations_finite:
  assumes "m \<noteq> NaN"
  shows "squared_deviations fl m (map Finite rs) = Inl OverflowError
       \<or> (\<exists>sqs. squared_deviations fl m (map Finite rs) = Inr sqs
                \<and> (\<forall>sq\<in>set sqs. nonneg_or_inf sq))"
proof (induction rs)
  case Nil
  then show ?case by simp
next
  case (Cons r rs)
  from f_pow2_deviation[OF assms, of r] Cons show ?case
    by (auto simp add: bind_arith_def)
qed

lemma f_add_nonneg:
  "nonneg_or_inf t0 \<Longrightarrow> nonneg_or_inf sq \<Longrightarrow> nonneg_or_inf (f_add fl t0 sq)"
  by (cases t0; cases sq) (simp_all add: fl_nonneg)

lemma fold_add_nonneg:
  "nonneg_or_inf t0 \<Longrightarrow> \<forall>sq\<in>set sqs. nonneg_or_inf sq \<Longrightarrow>
     nonneg_or_inf (fold (\<lambda>x total. f_add fl total x) sqs t0)"
  by (induction sqs arbitrary: t0) (simp_all add: f_add_nonneg)

lemma f_div_count_nonneg:
  "nonneg_or_inf x \<Longrightarrow> 0 < n \<Longrightarrow> \<exists>v. f_div_count fl x n = Inr v \<and> nonneg_or_inf v"
  by (cases x; cases n) (simp_all add: fl_nonneg)

lemma f_sqrt_nonneg: "nonneg_or_inf v \<Longrightarrow> \<exists>r. f_sqrt fl v = Inr r \<and> nonneg_or_inf r"
  by (cases v) (simp_all add: fl_nonneg)

lemma std_float_finite:
  "std_float (map Finite rs) = Inl OverflowError
     \<or> (\<exists>r. std_float (map Finite rs) = Inr r \<and> nonneg_or_inf r)"
proof (cases "length rs < 2")
  case True
  then show ?thesis by (simp add: std_float_def std_py_def)
next
  case False
  then have n: "0 < length rs" "0 < length rs - 1" by arith+
  obtain m where m: "f_div_count fl (f_sum fl (map Finite rs)) (length rs) = Inr m" "m \<noteq> NaN"
    using f_div_count_not_nan[OF f_sum_finite_not_nan n(1)] by blast
  from squared_deviations_finite[OF m(2), of rs] show ?thesis
  proof
    assume "squared_deviations fl m (map Finite rs) = Inl OverflowError"
    then show ?thesis using False m by (simp add: std_float_def std_py_def bind_arith_def)
  next
    assume "\<exists>sqs. squared_deviations fl m (map Finite rs) = Inr sqs
                \<and> (\<forall>sq\<in>set sqs. nonneg_or_inf sq)"
    then obtain sqs where sq: "squared_deviations fl m (map Finite rs) = Inr sqs"
      "\<forall>sq\<in>set sqs. nonneg_or_inf sq" by blast
    have "nonneg_or_inf (f_sum fl sqs)"
      unfolding f_sum_def using sq(2) by (intro fold_add_nonneg) simp_all
    then obtain v where v: "f_div_count fl (f_sum fl sqs) (length rs - 1) = Inr v" "nonneg_or_inf v"
      using f_div_count_nonneg n(2) by blast
    obtain r where "f_sqrt fl v = Inr r" "nonneg_or_inf r" using f_sqrt_nonneg[OF v(2)] by blast
    then show ?thesis using False m sq v by (simp add: std_float_def std_py_def bind_arith_def)
  qed
qed


lemma is_double_1e308: "is_double double_1e308"
proof -
  have "round_nearest (of_int 5010420900022432 * 2 powi 971) = of_int 5010420900022432 * 2 powi 971"
    by (rule round_nearest_normal) simp_all
  then show ?thesis by (simp add: is_double_def double_1e308_def overflow_threshold_def)
qed

lemma is_double_1e200: "is_double double_1e200"
proof -
  have "round_nearest (of_int 5883593420661338 * 2 powi 612) = of_int 5883593420661338 * 2 powi 612"
    by (rule round_nearest_normal) simp_all
  then show ?thesis by (simp add: is_double_def double_1e200_def overflow_threshold_def)
qed

lemma is_double_3: "is_double 3"
proof -
  have "round_nearest (of_int 6755399441055744 * 2 powi (- 51)) = of_int 6755399441055744 * 2 powi (- 51)"
    by (rule round_nearest_normal) simp_all
  then show ?thesis by (simp add: is_double_def overflow_threshold_def)
qed

lemma std_float_1e308: "std_float [Finite double_1e308, Finite double_1e308] = Inr PosInf"
proof -
  have o: "fl (2 * double_1e308) = PosInf" "fl (double_1e308 + double_1e308) = PosInf"
    by (simp_all add: fl_def double_1e308_def overflow_threshold_def)
  show ?thesis
    unfolding std_float_def std_py_def
    by (simp add: o f_sum_def f_sub_def bind_arith_def fl_double[OF is_double_1e308])
qed

lemma std_float_inf: "std_float [PosInf, Finite 1] = Inr NaN"
  by (simp add: std_float_def std_py_def f_sum_def f_sub_def bind_arith_def)

lemma std_float_1e200: "std_float [Finite double_1e200, Finite (- double_1e200)] = Inl OverflowError"
proof -
  have s: "f_sum fl [Finite double_1e200, Finite (- double_1e200)] = Finite 0"
    by (simp add: f_sum_def fl_double[OF is_double_1e200] fl_0)
  have d: "f_sub fl (Finite double_1e200) (Finite 0) = Finite double_1e200"
    by (simp add: f_sub_def fl_double[OF is_double_1e200])
  have o: "fl (double_1e200 * double_1e200) = PosInf"
    by (simp add: fl_def double_1e200_def overflow_threshold_def)
  show ?thesis
    unfolding std_float_def std_py_def
    by (simp add: s d o fl_0 bind_arith_def)
qed

text \<open>
  C7, as stated (exactly 0 for two equal values, never an undefined or NaN value),
  fails on doubles. For two values equal to the double \<^verbatim>\<open>1e308\<close> the sum overflows and
  the result is \<open>inf\<close>, not 0; for a list that holds \<open>inf\<close> the result is NaN; for
  \<^verbatim>\<open>1e200\<close> and \<^verbatim>\<open>-1e200\<close> the squaring raises \<^verbatim>\<open>OverflowError\<close>.
\<close>

theorem std_float_counterexample:
  "std_float [Finite double_1e308, Finite double_1e308] = Inr PosInf
   \<and> std_float [PosInf, Finite 1] = Inr NaN
   \<and> std_float [Finite double_1e200, Finite (- double_1e200)] = Inl OverflowError"
  by (simp add: std_float_1e308 std_float_inf std_float_1e200)

text \<open>
  C7, amended. \<^verbatim>\<open>_std\<close> returns exactly 0 for every list of fewer than 2 values,
  whatever they are. For two equal finite values whose sum does not overflow it returns
  exactly 0. For 2 or more values it evaluates Bessel's formula operation by operation:
  with exact arithmetic in place of the rounding its result is the square root of the sum
  of the squared deviations from the mean divided by \<open>n - 1\<close>. For finite values the
  result is never NaN and never negative: it is a non-negative finite number, or \<open>inf\<close>
  or an \<^verbatim>\<open>OverflowError\<close> when an intermediate result overflows.
\<close>

theorem std_float_result:
  fixes small :: "pyfloat list" and a :: real and rs :: "real list"
  shows "(length small < 2 \<longrightarrow> std_float small = Inr (Finite 0))
       \<and> (is_double a \<and> \<bar>a + a\<bar> < overflow_threshold \<longrightarrow>
            std_float [Finite a, Finite a] = Inr (Finite 0))
       \<and> std_py Finite (map Finite rs) = Inr (Finite (std rs))
       \<and> (2 \<le> length rs \<longrightarrow>
            std rs = sqrt (sum_list (map (\<lambda>x. (x - mean rs) ^ 2) rs) / (real (length rs) - 1)))
       \<and> ((\<exists>r. 0 \<le> r \<and> std_float (map Finite rs) = Inr (Finite r))
            \<or> std_float (map Finite rs) = Inr PosInf
            \<or> std_float (map Finite rs) = Inl OverflowError)"
proof -
  have a: "length small < 2 \<longrightarrow> std_float small = Inr (Finite 0)"
    by (simp add: std_float_def std_py_def)
  have b: "is_double a \<and> \<bar>a + a\<bar> < overflow_threshold \<longrightarrow>
            std_float [Finite a, Finite a] = Inr (Finite 0)"
    using std_float_two_equal by blast
  have c: "2 \<le> length rs \<longrightarrow>
            std rs = sqrt (sum_list (map (\<lambda>x. (x - mean rs) ^ 2) rs) / (real (length rs) - 1))"
    by (auto simp add: std_def mean_def Let_def of_nat_diff)
  have d: "(\<exists>r. 0 \<le> r \<and> std_float (map Finite rs) = Inr (Finite r))
            \<or> std_float (map Finite rs) = Inr PosInf
            \<or> std_float (map Finite rs) = Inl OverflowError"
  proof -
    from std_float_finite[of rs] show ?thesis
    proof
      assume "std_float (map Finite rs) = Inl OverflowError"
      then show ?thesis by simp
    next
      assume "\<exists>r. std_float (map Finite rs) = Inr r \<and> nonneg_or_inf r"
      then obtain r where r: "std_float (map Finite rs) = Inr r" "nonneg_or_inf r" by blast
      then show ?thesis by (cases r) simp_all
    qed
  qed
  show ?thesis using a b c d std_py_exact by blast
qed

theorem std_float_result_witness:
  "std_float [NaN] = Inr (Finite 0)
   \<and> std_float [Finite 3, Finite 3] = Inr (Finite 0)
   \<and> std_py Finite [Finite 1, Finite 2, Finite 3] = Inr (Finite 1)"
proof -
  have o: "\<bar>3 + 3 :: real\<bar> < overflow_threshold" by (simp add: overflow_threshold_def)
  have s: "std [1, 2, 3] = 1" by (simp add: std_def Let_def)
  from std_float_result [of "[NaN]" 3 "[1, 2, 3]"] is_double_3 o s
  show ?thesis by simp
qed

lemma months: "[Suc 0..<13] = [Suc 0, 2, 3, 4, 5, 6, 7, 8, 9, 10, 11, 12]"
  by (simp add: upt_rec)

lemma pad2_months: "map pad2 [Suc 0, 2, 3, 4, 5, 6, 7, 8, 9, 10, 11, 12] = month_suffixes"
  by (simp add: pad2_def string_of_nat.simps digit_char_def month_suffixes_def)

lemma period_keys: "map (period_key year) [1..<13] = map (\<lambda>mm. str_int year @ mm) month_suffixes"
proof -
  have "map (period_key year) [1..<13] = map (\<lambda>mm. str_int year @ mm) (map pad2 [Suc 0..<13])"
    by (simp add: period_key_def comp_def)
  then show ?thesis by (simp only: months pad2_months)
qed

lemma collect_months:
  "fold (\<lambda>month vals. let key = period_key year month; val = dict_get s key (Num (- 999))
                        in append_valid val vals) [1..<13] []
   = concat (map (\<lambda>mm. append_valid (dict_get s (str_int year @ mm) (Num (- 999))) []) month_suffixes)"
proof -
  have "fold (\<lambda>month vals. let key = period_key year month; val = dict_get s key (Num (- 999))
                        in append_valid val vals) [1..<13] []
      = concat (map (\<lambda>k. append_valid (dict_get s k (Num (- 999))) []) (map (period_key year) [1..<13]))"
    unfolding Let_def
    using fold_append_valid[of "\<lambda>month. dict_get s (period_key year month) (Num (- 999))" "[1..<13]" "[]"]
    by (simp add: comp_def)
  then show ?thesis by (simp only: period_keys map_map comp_def)
qed

lemma append_valid_missing:
  "append_valid (dict_get s k (Num (- 999))) []
     = (case s k of Some (Num r) \<Rightarrow> (if missing (Some (Num r)) then [] else [r]) | _ \<Rightarrow> [])"
  by (simp add: dict_get_def split: option.splits jval.splits)

lemma available_values_suffixes:
  "available_values s year
     = concat (map (\<lambda>mm. append_valid (dict_get s (str_int year @ mm) (Num (- 999))) []) month_suffixes)"
proof -
  have "available_values s year
      = concat (map (\<lambda>k. append_valid (dict_get s k (Num (- 999))) []) (map (period_key year) [1..<13]))"
    unfolding available_values_def append_valid_missing by (simp add: comp_def)
  then show ?thesis by (simp only: period_keys map_map comp_def)
qed

lemma annual_year_vals_available: "annual_year_vals s year = available_values s year"
  unfolding annual_year_vals_def collect_months available_values_suffixes ..

lemma yearly_vals_available: "yearly_vals s year = available_values s year"
  unfolding yearly_vals_def collect_months available_values_suffixes ..

lemma str_int_2021: "str_int 2021 = ''2021''"
  by (simp add: str_int_def string_of_nat.simps digit_char_def)

lemma days_sum: "sum_list days_per_month = 365.25"
  by (simp add: days_per_month_def)

lemma ones_total: "annual_yearly_means ''PRECTOTCORR'' precip_ones_2021 2021 2021 = [365.25]"
  unfolding annual_yearly_means_def annual_year_step_def annual_year_vals_def collect_months
  by (simp add: str_int_2021 month_suffixes_def precip_ones_2021_def day_weighted_sum_def
      days_per_month_def dict_get_def)


subsection \<open>The two lists of annual precipitation totals\<close>

text \<open>
  C5. For every raw precipitation series and every year range, the list of annual
  totals that \<^verbatim>\<open>_compute_variability\<close> builds (lines 210 to 221) is the list that the
  annual summary builds for the parameter \<^verbatim>\<open>PRECTOTCORR\<close> (lines 143 to 159): the same
  years qualify, with the same totals, in the same order. \<^verbatim>\<open>PRECTOTCORR\<close> is one of the
  parameters the annual summary loops over.
\<close>

theorem annual_precip_same_list:
  "annual_precip_of s start_year end_year = annual_yearly_means ''PRECTOTCORR'' s start_year end_year
   \<and> ''PRECTOTCORR'' \<in> set PARAMETERS"
proof -
  have "annual_year_step ''PRECTOTCORR'' s
      = (\<lambda>year annual_precip.
             let year_vals =
                   fold (\<lambda>month year_vals.
                           let key = period_key year month;
                               val = dict_get s key (Num (- 999))
                           in append_valid val year_vals)
                        [1..<13] []
             in if length year_vals = 12
                then (let total = sum_list (map (\<lambda>(v, d). v * d) (zip year_vals days_per_month))
                      in annual_precip @ [total])
                else annual_precip)"
    by (intro ext) (simp add: annual_year_step_def annual_year_vals_def day_weighted_sum_def Let_def)
  then show ?thesis
    by (simp add: annual_precip_of_def annual_yearly_means_def PARAMETERS_def)
qed


subsection \<open>Constant precipitation of 1.0 mm/day\<close>

text \<open>
  C2, as stated (the annual total of a year with 1.0 mm/day in all 12 months is the sum
  of the day-count table, which is 365.0), fails: for the record with 1.0 in every month
  of 2021 the total is not 365, and neither is the sum of the table.
\<close>

theorem precip_ones_counterexample:
  "annual_yearly_means ''PRECTOTCORR'' precip_ones_2021 2021 2021 \<noteq> [365]
   \<and> sum_list days_per_month \<noteq> 365"
  by (simp add: ones_total days_sum)

lemma suffix_is_month:
  assumes "mm \<in> set month_suffixes"
  shows "\<exists>month\<in>{1..12}. str_int year @ mm = period_key year month"
proof -
  from assms have "str_int year @ mm \<in> set (map (\<lambda>mm. str_int year @ mm) month_suffixes)"
    by simp
  then have "str_int year @ mm \<in> set (map (period_key year) [1..<13])"
    by (simp only: period_keys)
  then show ?thesis by auto
qed

lemma month_is_suffix:
  assumes "month \<in> {1..12}"
  shows "\<exists>mm\<in>set month_suffixes. period_key year month = str_int year @ mm"
proof -
  from assms have "period_key year month \<in> set (map (period_key year) [1..<13])"
    by simp
  then have "period_key year month \<in> set (map (\<lambda>mm. str_int year @ mm) month_suffixes)"
    by (simp only: period_keys)
  then show ?thesis by auto
qed

text \<open>
  C2, amended. For a year whose precipitation value is exactly 1.0 mm/day in all 12
  months, the annual summary's yearly value is the sum of the day-count table, and that
  sum is 365.25.
\<close>

theorem precip_ones_total:
  assumes "\<forall>month\<in>{1..12}. s (period_key year month) = Some (Num 1)"
  shows "annual_year_step ''PRECTOTCORR'' s year yearly_means
           = yearly_means @ [sum_list days_per_month]
         \<and> sum_list days_per_month = 365.25"
proof -
  have a: "\<forall>mm\<in>set month_suffixes. s (str_int year @ mm) = Some (Num 1)"
    using assms suffix_is_month[of _ year] by metis
  have "annual_year_vals s year = map (\<lambda>mm. 1) month_suffixes"
    unfolding annual_year_vals_def collect_months
    using a by (simp add: dict_get_def month_suffixes_def)
  then have v: "annual_year_vals s year = [1, 1, 1, 1, 1, 1, 1, 1, 1, 1, 1, 1]"
    by (simp add: month_suffixes_def)
  have "day_weighted_sum [1, 1, 1, 1, 1, 1, 1, 1, 1, 1, 1, 1] = sum_list days_per_month"
    by (simp add: day_weighted_sum_def days_per_month_def)
  then show ?thesis
    by (simp add: annual_year_step_def v days_sum)
qed

theorem precip_ones_total_witness:
  "annual_year_step ''PRECTOTCORR'' precip_ones_2021 2021 [] = [365.25]"
proof -
  have "\<forall>mm\<in>set month_suffixes. precip_ones_2021 (str_int 2021 @ mm) = Some (Num 1)"
    by (simp add: str_int_2021 month_suffixes_def precip_ones_2021_def)
  then have "\<forall>month\<in>{1..12}. precip_ones_2021 (period_key 2021 month) = Some (Num 1)"
    using month_is_suffix[of _ 2021] by metis
  from precip_ones_total [OF this, of "[]"] show ?thesis by simp
qed



lemma std_100_500: "std [100, 100, 100, 100, 500] = sqrt 32000"
  by (simp add: std_def Let_def)

lemma sqrt_32000_lower: "178.88 < sqrt 32000"
  by (rule real_less_rsqrt) (simp add: power2_eq_square)

lemma sqrt_32000_upper: "sqrt 32000 < 178.89"
  by (rule real_less_lsqrt) (simp_all add: power2_eq_square)

subsection \<open>The totals 100, 100, 100, 100, 500\<close>

text \<open>
  The precipitation block of the result is the block computed from the list of annual
  totals, whenever that list is not empty.
\<close>

lemma precipitation_part_of_totals:
  assumes "pd ''PRECTOTCORR'' = Some s" and "annual_precip_of s start_year end_year \<noteq> []"
  shows "precipitation_part pd start_year end_year
           = Some (precipitation_block (annual_precip_of s start_year end_year))"
    and "compute_variability pd start_year end_year = Inr v \<Longrightarrow>
           precipitation v = Some (precipitation_block (annual_precip_of s start_year end_year))"
proof -
  show p: "precipitation_part pd start_year end_year
           = Some (precipitation_block (annual_precip_of s start_year end_year))"
    using assms by (simp add: precipitation_part_def)
  assume "compute_variability pd start_year end_year = Inr v"
  then show "precipitation v = Some (precipitation_block (annual_precip_of s start_year end_year))"
    using p by (auto simp add: compute_variability_def bind_err_def split: sum.splits)
qed

lemma precipitation_block_100_500:
  "precipitation_block [100, 100, 100, 100, 500] =
     \<lparr>cv = Some 0.994, drought_frequency = 0, drought_threshold_mm = 1.1,
      wet_frequency = 0.2, wet_threshold_mm = 358.9\<rparr>
   \<and> mean [100, 100, 100, 100, 500] = 180
   \<and> py_round (std [100, 100, 100, 100, 500]) 1 = 178.9"
proof -
  let ?s = "sqrt 32000 :: real"
  have lo: "178.88 < ?s" by (rule sqrt_32000_lower)
  have hi: "?s < 178.89" by (rule sqrt_32000_upper)
  have cv: "py_round (?s / 180) 3 = 0.994"
    using py_round_between[of 994 "?s / 180" 3] lo hi by simp
  have dt: "py_round (180 - ?s) 1 = 1.1"
    using py_round_between[of 11 "180 - ?s" 1] lo hi by simp
  have wt: "py_round (180 + ?s) 1 = 358.9"
    using py_round_between[of 3589 "180 + ?s" 1] lo hi by simp
  have sr: "py_round ?s 1 = 178.9"
    using py_round_between[of 1789 "?s" 1] lo hi by simp
  have d0: "py_round 0 3 = 0" by (simp add: py_round_def)
  have w0: "py_round (1 / 5) 3 = 0.2"
    using py_round_between[of 200 "1 / 5" 3] by simp
  have f1: "\<not> 100 < 180 - ?s" "\<not> 500 < 180 - ?s" "\<not> 180 + ?s < 100" "180 + ?s < 500"
    using lo hi by simp_all
  have blk: "precipitation_block [100, 100, 100, 100, 500] =
     \<lparr>cv = Some 0.994, drought_frequency = 0, drought_threshold_mm = 1.1,
      wet_frequency = 0.2, wet_threshold_mm = 358.9\<rparr>"
    unfolding precipitation_block_def Let_def std_100_500
    using f1 cv dt wt d0 w0 by simp
  have mn: "mean [100, 100, 100, 100, 500] = 180" by (simp add: mean_def)
  show ?thesis using blk mn sr by (simp only: std_100_500 simp_thms)
qed


lemma upto_2001_2005: "[2001..2005] = [2001, 2002, 2003, 2004, 2005::int]"
  by (simp add: upto_rec1)

lemma str_int_years:
  "str_int 2001 = ''2001''" "str_int 2002 = ''2002''" "str_int 2003 = ''2003''"
  "str_int 2004 = ''2004''" "str_int 2005 = ''2005''"
  by (simp_all add: str_int_def string_of_nat.simps digit_char_def)

lemma precip_100_500_totals:
  "annual_precip_of precip_100_500 2001 2005 = [100, 100, 100, 100, 500]"
  unfolding annual_precip_of_def collect_months upto_2001_2005
  by (simp add: str_int_years month_suffixes_def precip_100_500_def days_per_month_def dict_get_def)


text \<open>
  C6. For a raw record whose list of qualifying annual precipitation totals is
  \<open>[100, 100, 100, 100, 500]\<close>, the precipitation block that the variability analysis
  builds is drought\_threshold\_mm = 1.1, drought\_frequency = 0, wet\_threshold\_mm = 358.9
  and wet\_frequency = 0.2 (and cv = 0.994). It is the block of every result the
  analysis returns, and the analysis returns when the record has no mean-temperature
  series. The mean of the totals is 180 and their sample standard deviation, to one
  decimal, 178.9.
\<close>

theorem variability_100_500:
  assumes "pd ''PRECTOTCORR'' = Some s"
    and "annual_precip_of s start_year end_year = [100, 100, 100, 100, 500]"
  shows "precipitation_part pd start_year end_year
           = Some \<lparr>cv = Some 0.994, drought_frequency = 0, drought_threshold_mm = 1.1,
                   wet_frequency = 0.2, wet_threshold_mm = 358.9\<rparr>
       \<and> (\<forall>v. compute_variability pd start_year end_year = Inr v \<longrightarrow>
              precipitation v
                = Some \<lparr>cv = Some 0.994, drought_frequency = 0, drought_threshold_mm = 1.1,
                        wet_frequency = 0.2, wet_threshold_mm = 358.9\<rparr>)
       \<and> (pd ''T2M'' = None \<longrightarrow>
              compute_variability pd start_year end_year
                = Inr \<lparr>precipitation =
                         Some \<lparr>cv = Some 0.994, drought_frequency = 0, drought_threshold_mm = 1.1,
                               wet_frequency = 0.2, wet_threshold_mm = 358.9\<rparr>,
                       temperature = None\<rparr>)
       \<and> mean [100, 100, 100, 100, 500] = 180
       \<and> py_round (std [100, 100, 100, 100, 500]) 1 = 178.9"
proof -
  let ?blk = "\<lparr>cv = Some 0.994, drought_frequency = 0, drought_threshold_mm = 1.1,
               wet_frequency = 0.2, wet_threshold_mm = (358.9::real)\<rparr>"
  have ne: "annual_precip_of s start_year end_year \<noteq> []" using assms(2) by simp
  have blk: "precipitation_block (annual_precip_of s start_year end_year) = ?blk"
    using precipitation_block_100_500 assms(2) by simp
  have p: "precipitation_part pd start_year end_year = Some ?blk"
    using precipitation_part_of_totals(1)[where pd=pd and s=s and start_year=start_year and end_year=end_year] assms(1) ne blk by simp
  have v: "\<forall>v. compute_variability pd start_year end_year = Inr v \<longrightarrow> precipitation v = Some ?blk"
    using precipitation_part_of_totals(2)[where pd=pd and s=s and start_year=start_year and end_year=end_year] assms(1) ne blk by simp
  have t: "pd ''T2M'' = None \<longrightarrow>
              compute_variability pd start_year end_year
                = Inr \<lparr>precipitation = Some ?blk, temperature = None\<rparr>"
    using p by (simp add: compute_variability_def temperature_part_def bind_err_def)
  show ?thesis using p v t precipitation_block_100_500 by simp
qed

theorem variability_100_500_witness:
  "compute_variability [''PRECTOTCORR'' \<mapsto> precip_100_500] 2001 2005
     = Inr \<lparr>precipitation =
              Some \<lparr>cv = Some 0.994, drought_frequency = 0, drought_threshold_mm = 1.1,
                    wet_frequency = 0.2, wet_threshold_mm = 358.9\<rparr>,
            temperature = None\<rparr>"
  using variability_100_500 [where pd = "[''PRECTOTCORR'' \<mapsto> precip_100_500]"
      and s = precip_100_500 and start_year = 2001 and end_year = 2005]
    precip_100_500_totals
  by simp

lemma below_above_disjoint:
  fixes xs :: "real list" and m s :: real
  assumes "0 \<le> s"
  shows "length (filter (\<lambda>p. p < m - s) xs) + length (filter (\<lambda>p. p > m + s) xs) \<le> length xs"
proof -
  have "length (filter (\<lambda>p. p > m + s) xs) \<le> length (filter (\<lambda>p. \<not> p < m - s) xs)"
    using assms by (induction xs) auto
  then have "length (filter (\<lambda>p. p < m - s) xs) + length (filter (\<lambda>p. p > m + s) xs)
        \<le> length (filter (\<lambda>p. p < m - s) xs) + length (filter (\<lambda>p. \<not> p < m - s) xs)"
    by simp
  also have "\<dots> = length xs" by (rule sum_length_filter_compl)
  finally show ?thesis .
qed

subsection \<open>Drought and wet frequencies\<close>

text \<open>
  C10. Whenever the precipitation block is produced (the list of annual totals is not
  empty), the frequencies it reports are the roundings of two quotients \<open>d\<close> and \<open>w\<close>,
  the shares of the years strictly below \<open>mean - std\<close> and strictly above
  \<open>mean + std\<close>; each lies between 0 and 1 and their sum is at most 1.
\<close>

theorem frequencies_in_unit_interval:
  fixes annual_precip :: "real list"
  assumes "annual_precip \<noteq> []"
  shows "let d = real (length (filter (\<lambda>p. p < mean annual_precip - std annual_precip) annual_precip))
                   / real (length annual_precip);
             w = real (length (filter (\<lambda>p. p > mean annual_precip + std annual_precip) annual_precip))
                   / real (length annual_precip)
         in drought_frequency (precipitation_block annual_precip) = py_round d 3
          \<and> wet_frequency (precipitation_block annual_precip) = py_round w 3
          \<and> 0 \<le> d \<and> d \<le> 1 \<and> 0 \<le> w \<and> w \<le> 1 \<and> d + w \<le> 1"
proof -
  let ?n = "length annual_precip"
  let ?dy = "length (filter (\<lambda>p. p < mean annual_precip - std annual_precip) annual_precip)"
  let ?wy = "length (filter (\<lambda>p. p > mean annual_precip + std annual_precip) annual_precip)"
  from assms have n: "0 < ?n" by simp
  have s: "?dy + ?wy \<le> ?n" using std_nonneg by (rule below_above_disjoint)
  then have "real ?dy + real ?wy \<le> real ?n" by (metis of_nat_add of_nat_le_iff)
  then have sum: "real ?dy / real ?n + real ?wy / real ?n \<le> 1"
    using n by (simp add: add_divide_distrib[symmetric])
  have d1: "real ?dy / real ?n \<le> 1" using n by simp
  have w1: "real ?wy / real ?n \<le> 1" using n by simp
  have df: "drought_frequency (precipitation_block annual_precip) = py_round (real ?dy / real ?n) 3"
    by (simp add: precipitation_block_def Let_def mean_def)
  have wf: "wet_frequency (precipitation_block annual_precip) = py_round (real ?wy / real ?n) 3"
    by (simp add: precipitation_block_def Let_def mean_def)
  show ?thesis unfolding Let_def using df wf d1 w1 sum by simp
qed

lemma std_nine: "std [0, 2, 2, 2, 2, 2, 2, 2, 4] = 1"
  by (simp add: std_def Let_def)

theorem frequencies_in_unit_interval_witness:
  "drought_frequency (precipitation_block [0, 2, 2, 2, 2, 2, 2, 2, 4]) = py_round (1 / 9) 3
   \<and> wet_frequency (precipitation_block [0, 2, 2, 2, 2, 2, 2, 2, 4]) = py_round (1 / 9) 3
   \<and> (1 / 9 :: real) + 1 / 9 \<le> 1"
  using frequencies_in_unit_interval [of "[0, 2, 2, 2, 2, 2, 2, 2, 4]"]
  by (simp add: std_nine mean_def Let_def)

lemma fold_annual_year_step:
  "fold (annual_year_step param s) ys acc
     = acc @ concat (map (\<lambda>y. annual_year_step param s y []) ys)"
proof (induction ys arbitrary: acc)
  case Nil
  then show ?case by simp
next
  case (Cons y ys)
  have "annual_year_step param s y acc = acc @ annual_year_step param s y []"
    by (simp add: annual_year_step_def Let_def)
  then show ?case using Cons by simp
qed

lemma monthly_mean_neq_total: "p @ ''_monthly_mean'' \<noteq> q @ ''_annual_total_mm''"
proof
  assume "p @ ''_monthly_mean'' = q @ ''_annual_total_mm''"
  then have "last (p @ ''_monthly_mean'') = last (q @ ''_annual_total_mm'')" by simp
  then show False by simp
qed

lemma year_record_step_other:
  assumes "q \<noteq> p"
  shows "year_record_step pd year q r (p @ ''_monthly_mean'') = r (p @ ''_monthly_mean'')"
  using assms monthly_mean_neq_total[of p q]
  by (simp add: year_record_step_def Let_def split: option.splits)

lemma year_record_step_self:
  assumes "pd p = Some s" "yearly_vals s year \<noteq> []"
  shows "year_record_step pd year p r (p @ ''_monthly_mean'')
           = Some (py_round (sum_list (yearly_vals s year) / real (length (yearly_vals s year))) 2)"
  using assms by (simp add: year_record_step_def Let_def)

lemma fold_year_record_step_absent:
  assumes "p \<notin> set ps"
  shows "fold (year_record_step pd year) ps r (p @ ''_monthly_mean'') = r (p @ ''_monthly_mean'')"
  using assms
proof (induction ps arbitrary: r)
  case Nil
  then show ?case by simp
next
  case (Cons q ps)
  then have "q \<noteq> p" "p \<notin> set ps" by auto
  then show ?case using Cons.IH year_record_step_other by simp
qed

lemma fold_year_record_step_present:
  assumes "p \<in> set ps" "pd p = Some s" "yearly_vals s year \<noteq> []"
  shows "fold (year_record_step pd year) ps r (p @ ''_monthly_mean'')
           = Some (py_round (sum_list (yearly_vals s year) / real (length (yearly_vals s year))) 2)"
  using assms(1)
proof (induction ps arbitrary: r)
  case Nil
  then show ?case by simp
next
  case (Cons q ps)
  show ?case
  proof (cases "p \<in> set ps")
    case True
    then show ?thesis using Cons.IH by simp
  next
    case False
    with Cons.prems have "q = p" by simp
    then show ?thesis
      using False fold_year_record_step_absent[where p=p and ps=ps and pd=pd and year=year]
        year_record_step_self[where pd=pd and p=p and s=s and year=year and r=r] assms(2,3) by simp
  qed
qed

lemma yearly_data_fold:
  "fold (\<lambda>year yd. yd(str_int year \<mapsto> year_record pd year)) ys m (str_int y)
     = (if y \<in> set ys then Some (year_record pd y) else m (str_int y))"
proof (induction ys arbitrary: m)
  case Nil
  then show ?case by simp
next
  case (Cons x xs)
  then show ?case using str_int_inj by auto
qed

lemma yearly_data_lookup:
  assumes "start_year \<le> year" "year \<le> end_year"
  shows "yearly_data pd start_year end_year (str_int year) = Some (year_record pd year)"
  using assms by (simp add: yearly_data_def yearly_data_fold)

subsection \<open>Coverage of a year: annual summary against yearly series\<close>

text \<open>
  C1. Let a parameter of \<^verbatim>\<open>PARAMETERS\<close> be present in the raw record and let a year of
  the inclusive range have exactly 11 available monthly values for it. Then the year
  contributes nothing to the annual summary of that parameter: the list of yearly values
  is the one obtained from the range without that year. The yearly series has a record
  under that year, and the record holds, under the parameter's monthly-mean key, the
  arithmetic mean of the 11 available values rounded to 2 decimals.
\<close>

theorem coverage_asymmetry:
  assumes "param \<in> set PARAMETERS" and "pd param = Some s"
    and "start_year \<le> year" and "year \<le> end_year"
    and "length (available_values s year) = 11"
  shows "annual_yearly_means param s start_year end_year
           = fold (annual_year_step param s) ([start_year..year - 1] @ [year + 1..end_year]) []
       \<and> (\<exists>year_record.
             yearly_data pd start_year end_year (str_int year) = Some year_record
           \<and> year_record (param @ ''_monthly_mean'')
               = Some (py_round (sum_list (available_values s year) / 11) 2))"
proof -
  have skip: "annual_year_step param s year [] = []"
    using assms(5) by (simp add: annual_year_step_def annual_year_vals_available)
  have split: "[start_year..end_year] = [start_year..year - 1] @ year # [year + 1..end_year]"
    using assms(3,4) by (rule upto_split3)
  have a: "annual_yearly_means param s start_year end_year
           = fold (annual_year_step param s) ([start_year..year - 1] @ [year + 1..end_year]) []"
    unfolding annual_yearly_means_def fold_annual_year_step[of param s _ "[]"] split
    using skip by simp
  have ne: "yearly_vals s year \<noteq> []"
    using assms(5) by (auto simp add: yearly_vals_available)
  have "year_record pd year (param @ ''_monthly_mean'')
          = Some (py_round (sum_list (available_values s year) / 11) 2)"
    unfolding year_record_def
    using fold_year_record_step_present[where p=param and ps=PARAMETERS and pd=pd and s=s and year=year and r=Map.empty] assms(1,2,5) ne
    by (simp add: yearly_vals_available)
  then show ?thesis
    using a yearly_data_lookup[OF assms(3,4)] by simp
qed

lemma month_param_values_empty:
  assumes "\<forall>year\<in>{start_year..end_year}. missing (s (period_key year month_num))"
  shows "month_param_values s start_year end_year month_num = []"
proof -
  have "month_param_values s start_year end_year month_num
      = concat (map (\<lambda>year. append_valid (dict_get s (period_key year month_num) (Num (- 999))) [])
                    [start_year..end_year])"
    unfolding month_param_values_def Let_def
    using fold_append_valid[of "\<lambda>year. dict_get s (period_key year month_num) (Num (- 999))"
                               "[start_year..end_year]" "[]"]
    by simp
  moreover have "append_valid (dict_get s (period_key year month_num) (Num (- 999))) [] = []"
    if "year \<in> set [start_year..end_year]" for year
  proof -
    from that assms have "missing (s (period_key year month_num))" by simp
    then show ?thesis
      by (cases "s (period_key year month_num)" rule: missing.cases) (simp_all add: dict_get_def)
  qed
  ultimately show ?thesis by simp
qed

lemma month_values_step_keeps:
  assumes "case pd p of None \<Rightarrow> True
           | Some s \<Rightarrow> month_param_values s start_year end_year month_num = []"
  shows "month_values_step pd start_year end_year month_num q mv p = mv p"
proof (cases "q = p")
  case True
  then show ?thesis using assms
    by (simp add: month_values_step_def Let_def split: option.splits)
next
  case False
  then show ?thesis
    by (simp add: month_values_step_def Let_def split: option.splits)
qed

lemma fold_month_values_step_keeps:
  assumes "case pd p of None \<Rightarrow> True
           | Some s \<Rightarrow> month_param_values s start_year end_year month_num = []"
  shows "fold (month_values_step pd start_year end_year month_num) ps mv p = mv p"
proof (induction ps arbitrary: mv)
  case Nil
  then show ?case by simp
next
  case (Cons q ps)
  have "month_values_step pd start_year end_year month_num q mv p = mv p"
    using month_values_step_keeps[where pd=pd and p=p and start_year=start_year and end_year=end_year and month_num=month_num and q=q and mv=mv] assms by simp
  then show ?case using Cons.IH[of "month_values_step pd start_year end_year month_num q mv"]
    by simp
qed

lemma fold_enumerate_absent:
  assumes "nm \<notin> set xs"
  shows "fold (\<lambda>(i, x) mc. let n = i + 1 in mc(x \<mapsto> f n)) (List.enumerate k xs) mc nm = mc nm"
  using assms
proof (induction xs arbitrary: k mc)
  case Nil
  then show ?case by simp
next
  case (Cons x xs)
  then show ?case by (simp add: Let_def)
qed

lemma fold_enumerate_lookup:
  assumes "distinct xs" "j < length xs"
  shows "fold (\<lambda>(i, x) mc. let n = i + 1 in mc(x \<mapsto> f n)) (List.enumerate k xs) mc (xs ! j)
           = Some (f (k + j + 1))"
  using assms
proof (induction xs arbitrary: k mc j)
  case Nil
  then show ?case by simp
next
  case (Cons x xs)
  show ?case
  proof (cases j)
    case 0
    from Cons.prems have "x \<notin> set xs" by simp
    then have "fold (\<lambda>(i, x) mc. let n = i + 1 in mc(x \<mapsto> f n)) (List.enumerate (Suc k) xs)
                 (mc(x \<mapsto> f (k + 1))) x = (mc(x \<mapsto> f (k + 1))) x"
      by (rule fold_enumerate_absent)
    then show ?thesis using 0 by (simp add: Let_def del: fun_upd_apply) simp
  next
    case (Suc j')
    with Cons.prems have "distinct xs" "j' < length xs" by simp_all
    from Cons.IH[OF this, of "Suc k" "mc(x \<mapsto> f (k + 1))"] show ?thesis
      using Suc by (simp add: Let_def del: fun_upd_apply)
  qed
qed

lemma monthly_clim_lookup:
  assumes "m_idx < 12"
  shows "monthly_clim pd start_year end_year (MONTH_NAMES ! m_idx)
           = Some (month_values pd start_year end_year (m_idx + 1))"
proof -
  have d: "distinct MONTH_NAMES" by (simp add: MONTH_NAMES_def)
  have l: "m_idx < length MONTH_NAMES" using assms by (simp add: MONTH_NAMES_def)
  show ?thesis
    unfolding monthly_clim_def
    using fold_enumerate_lookup[OF d l, of "month_values pd start_year end_year" 0 Map.empty]
    by simp
qed

subsection \<open>A month and parameter without data\<close>

text \<open>
  C9. For a calendar month and a parameter such that the parameter is not in the raw
  record, or every year of the range has a missing entry (absent, null or \<open>-999\<close>) for
  that month, the month's mapping of the climatology exists and has no key for the
  parameter.
\<close>

theorem absent_parameter_key:
  assumes "m_idx < 12"
    and "case pd param of None \<Rightarrow> True
         | Some s \<Rightarrow> \<forall>year\<in>{start_year..end_year}. missing (s (period_key year (m_idx + 1)))"
  shows "\<exists>month_values.
           monthly_clim pd start_year end_year (MONTH_NAMES ! m_idx) = Some month_values
         \<and> month_values param = None \<and> param \<notin> dom month_values"
proof -
  have "case pd param of None \<Rightarrow> True
        | Some s \<Rightarrow> month_param_values s start_year end_year (m_idx + 1) = []"
    using assms(2) month_param_values_empty by (simp split: option.splits)
  then have "month_values pd start_year end_year (m_idx + 1) param = None"
    unfolding month_values_def
    using fold_month_values_step_keeps[where pd=pd and p=param and start_year=start_year and end_year=end_year and month_num="m_idx + 1" and ps=PARAMETERS and mv=Map.empty]
    by simp
  then show ?thesis using monthly_clim_lookup[OF assms(1)] by (simp add: domIff)
qed


lemma t2m_eleven_available:
  "available_values t2m_eleven_2021 2021 = [1, 2, 3, 4, 5, 6, 7, 8, 9, 10, 11]"
  unfolding available_values_suffixes
  by (simp add: str_int_2021 month_suffixes_def t2m_eleven_2021_def dict_get_def)

theorem coverage_asymmetry_witness:
  "annual_yearly_means ''T2M'' t2m_eleven_2021 2021 2021 = []
   \<and> (\<exists>year_record.
         yearly_data [''T2M'' \<mapsto> t2m_eleven_2021] 2021 2021 ''2021'' = Some year_record
       \<and> year_record ''T2M_monthly_mean'' = Some 6)"
proof -
  have p: "''T2M'' \<in> set PARAMETERS" by (simp add: PARAMETERS_def)
  have l: "length (available_values t2m_eleven_2021 2021) = 11"
    by (simp add: t2m_eleven_available)
  have r: "py_round (sum_list (available_values t2m_eleven_2021 2021) / 11) 2 = 6"
    by (simp add: t2m_eleven_available py_round_def)
  from coverage_asymmetry [where param="''T2M''" and pd="[''T2M'' \<mapsto> t2m_eleven_2021]"
      and s=t2m_eleven_2021 and start_year=2021 and year=2021 and end_year=2021]
    p l r
  show ?thesis by (simp add: str_int_2021)
qed

lemma pad2_12: "pad2 12 = ''12''"
  by (simp add: pad2_def string_of_nat.simps digit_char_def)

lemma str_int_2022: "str_int 2022 = ''2022''"
  by (simp add: str_int_def string_of_nat.simps digit_char_def)

theorem absent_parameter_key_witness:
  "\<exists>month_values.
     monthly_clim [''T2M'' \<mapsto> t2m_eleven_2021] 2021 2022 ''Dec'' = Some month_values
   \<and> month_values ''T2M'' = None"
proof -
  have y: "{2021..2022::int} = {2021, 2022}" by auto
  have h: "case [''T2M'' \<mapsto> t2m_eleven_2021] ''T2M'' of None \<Rightarrow> True
           | Some s \<Rightarrow> \<forall>year\<in>{2021..2022}. missing (s (period_key year (11 + 1)))"
    by (simp add: y period_key_def pad2_12 str_int_2021 str_int_2022 t2m_eleven_2021_def)
  have n: "MONTH_NAMES ! 11 = ''Dec''" by (simp add: MONTH_NAMES_def)
  from absent_parameter_key [where m_idx=11 and pd="[''T2M'' \<mapsto> t2m_eleven_2021]"
      and param="''T2M''" and start_year=2021 and end_year=2022] h n
  show ?thesis by auto
qed

lemma upto_2021: "[2021..2021] = [2021::int]"
  by (simp add: upto_rec1)

lemma pad2_2: "pad2 2 = ''02''"
  by (simp add: pad2_def string_of_nat.simps digit_char_def)

lemma aligned_feb: "aligned_day_weighted_sum precip_feb_only_2021 2021 = 28.25"
  by (simp add: aligned_day_weighted_sum_def months days_per_month_def period_key_def
      str_int_2021 pad2_def string_of_nat.simps digit_char_def precip_feb_only_2021_def)

subsection \<open>The partial annual total of the yearly series\<close>

text \<open>
  C3 fails on the code. The yearly series zips the list of the available values, from
  which the missing months have been dropped, with the day-count table, so a value is
  weighted with the day count of its position in that list, not of its calendar month.
  For a record whose only precipitation entry of 2021 is 1.0 mm/day in February, the
  record of 2021 holds the total 31 (January's day count), where the sum over the
  available months, each with its own month's day count, is 28.25, which rounds to 28.2.
\<close>

theorem partial_total_misaligned:
  "yearly_data [''PRECTOTCORR'' \<mapsto> precip_feb_only_2021] 2021 2021 ''2021''
     = Some (year_record [''PRECTOTCORR'' \<mapsto> precip_feb_only_2021] 2021)
   \<and> year_record [''PRECTOTCORR'' \<mapsto> precip_feb_only_2021] 2021 ''PRECTOTCORR_annual_total_mm''
       = Some 31
   \<and> py_round (aligned_day_weighted_sum precip_feb_only_2021 2021) 1 = 28.2"
proof -
  have a: "yearly_data [''PRECTOTCORR'' \<mapsto> precip_feb_only_2021] 2021 2021 ''2021''
     = Some (year_record [''PRECTOTCORR'' \<mapsto> precip_feb_only_2021] 2021)"
    using yearly_data_lookup[of 2021 2021 2021 "[''PRECTOTCORR'' \<mapsto> precip_feb_only_2021]"]
    by (simp add: str_int_2021)
  have v: "yearly_vals precip_feb_only_2021 2021 = [1]"
    unfolding yearly_vals_def collect_months
    by (simp add: str_int_2021 month_suffixes_def precip_feb_only_2021_def dict_get_def)
  have r31: "py_round 31 1 = 31" by (simp add: py_round_def)
  have b: "year_record [''PRECTOTCORR'' \<mapsto> precip_feb_only_2021] 2021 ''PRECTOTCORR_annual_total_mm''
       = Some 31"
    unfolding year_record_def PARAMETERS_def
    using r31 by (simp add: year_record_step_def v day_weighted_sum_def days_per_month_def)
  have c: "py_round (aligned_day_weighted_sum precip_feb_only_2021 2021) 1 = 28.2"
    by (simp add: aligned_feb py_round_def)
  show ?thesis using a b c by simp
qed

lemma jul_jan_null: "jul_jan_temps t2m_null_jan_2021 2021 2021 = ([Num 20], [Null])"
  by (simp add: jul_jan_temps_def upto_2021 str_int_2021 t2m_null_jan_2021_def dict_get_def)

lemma jul_jan_sentinel: "jul_jan_temps t2m_sentinel_jan_2021 2021 2021 = ([Num 20], [])"
  by (simp add: jul_jan_temps_def upto_2021 str_int_2021 t2m_sentinel_jan_2021_def dict_get_def)

lemma jul_jan_absent: "jul_jan_temps t2m_absent_jan_2021 2021 2021 = ([Num 20], [])"
  by (simp add: jul_jan_temps_def upto_2021 str_int_2021 t2m_absent_jan_2021_def dict_get_def)

subsection \<open>A null entry in the temperature part\<close>

text \<open>
  C4 fails on the code. The temperature part of \<^verbatim>\<open>_compute_variability\<close> tests only
  \<^verbatim>\<open>!= -999\<close>, so a null January entry is collected into the list of January values
  and the sum over that list raises \<^verbatim>\<open>TypeError\<close>, which aborts the processing of the
  whole record; with the sentinel or with no entry in its place the list is empty and
  the result has no temperature block.
\<close>

theorem null_january_not_excluded:
  "snd (jul_jan_temps t2m_null_jan_2021 2021 2021) = [Null]
   \<and> compute_variability [''T2M'' \<mapsto> t2m_null_jan_2021] 2021 2021 = Inl TypeError
   \<and> process_monthly_data [''properties'' \<mapsto> [''parameter'' \<mapsto> [''T2M'' \<mapsto> t2m_null_jan_2021]]]
        2021 2021 = Inl TypeError
   \<and> snd (jul_jan_temps t2m_sentinel_jan_2021 2021 2021) = []
   \<and> compute_variability [''T2M'' \<mapsto> t2m_sentinel_jan_2021] 2021 2021
       = Inr \<lparr>precipitation = None, temperature = None\<rparr>
   \<and> snd (jul_jan_temps t2m_absent_jan_2021 2021 2021) = []
   \<and> compute_variability [''T2M'' \<mapsto> t2m_absent_jan_2021] 2021 2021
       = Inr \<lparr>precipitation = None, temperature = None\<rparr>"
proof -
  have n: "compute_variability [''T2M'' \<mapsto> t2m_null_jan_2021] 2021 2021 = Inl TypeError"
    by (simp add: compute_variability_def temperature_part_def precipitation_part_def
        jul_jan_null bind_err_def raw_std_def raw_sum_def)
  have p: "process_monthly_data [''properties'' \<mapsto> [''parameter'' \<mapsto> [''T2M'' \<mapsto> t2m_null_jan_2021]]]
        2021 2021 = Inl TypeError"
    by (simp add: process_monthly_data_def dict_index_def bind_err_def n Let_def)
  have s: "compute_variability [''T2M'' \<mapsto> t2m_sentinel_jan_2021] 2021 2021
       = Inr \<lparr>precipitation = None, temperature = None\<rparr>"
    by (simp add: compute_variability_def temperature_part_def precipitation_part_def
        jul_jan_sentinel bind_err_def)
  have a: "compute_variability [''T2M'' \<mapsto> t2m_absent_jan_2021] 2021 2021
       = Inr \<lparr>precipitation = None, temperature = None\<rparr>"
    by (simp add: compute_variability_def temperature_part_def precipitation_part_def
        jul_jan_absent bind_err_def)
  show ?thesis using n p s a by (simp add: jul_jan_null jul_jan_sentinel jul_jan_absent)
qed

lemma zone_step_other:
  assumes "zone_id \<noteq> fst z"
  shows "snd (zone_step fetch str_e sy ey z st) zone_id = snd st zone_id"
  using assms
  by (cases z; cases st) (simp add: zone_step_def Let_def split: prod.splits sum.splits)

lemma fold_zone_step_other:
  assumes "zone_id \<notin> fst ` set zs"
  shows "snd (fold (zone_step fetch str_e sy ey) zs st) zone_id = snd st zone_id"
  using assms
proof (induction zs arbitrary: st)
  case Nil
  then show ?case by simp
next
  case (Cons z zs)
  then have "zone_id \<noteq> fst z" "zone_id \<notin> fst ` set zs" by auto
  then show ?case using Cons.IH zone_step_other by simp
qed

lemma zone_step_dom:
  "dom (snd (zone_step fetch str_e sy ey z st)) = insert (fst z) (dom (snd st))"
  by (cases z; cases st) (simp add: zone_step_def Let_def split: prod.splits sum.splits)

lemma fold_zone_step_dom:
  "dom (snd (fold (zone_step fetch str_e sy ey) zs st)) = dom (snd st) \<union> fst ` set zs"
proof (induction zs arbitrary: st)
  case Nil
  then show ?case by simp
next
  case (Cons z zs)
  then show ?case by (simp add: zone_step_dom)
qed

lemma zone_step_error:
  assumes "fst (try_zone fetch sy ey w zd) = Inl err"
  shows "snd (zone_step fetch str_e sy ey (zone_id, zd) (w, out)) zone_id
           = Some [''zone_name'' \<mapsto> Str (name zd),
                   ''representative_point'' \<mapsto> Point (representative_point zd),
                   ''error'' \<mapsto> Str (str_e err)]"
  using assms by (cases "try_zone fetch sy ey w zd") (simp add: zone_step_def Let_def)

lemma zone_step_profile:
  assumes "fst (try_zone fetch sy ey w zd) = Inr prof"
  shows "snd (zone_step fetch str_e sy ey (zone_id, zd) (w, out)) zone_id
           = Some [''zone_name'' \<mapsto> Str (name zd),
                   ''representative_point'' \<mapsto> Point (representative_point zd),
                   ''climate_profile'' \<mapsto> Profile prof]"
  using assms by (cases "try_zone fetch sy ey w zd") (simp add: zone_step_def Let_def)

lemma zone_loop_at:
  assumes "distinct (map fst (before @ (zone_id, zd) # after))"
  shows "snd (zone_loop fetch str_e sy ey (before @ (zone_id, zd) # after) w) zone_id
           = snd (zone_step fetch str_e sy ey (zone_id, zd)
                    (zone_loop fetch str_e sy ey before w)) zone_id"
proof -
  from assms have "zone_id \<notin> fst ` set after" by auto
  then show ?thesis
    unfolding zone_loop_def by (simp add: fold_zone_step_other)
qed

lemma try_zone_raises:
  "(fst (try_zone fetch sy ey w zd) = Inl err)
     = (let pt = representative_point zd; r = fst (fetch w (lat pt) (lon pt) sy ey)
        in r = Inl err \<or> (\<exists>raw. r = Inr raw \<and> process_monthly_data raw sy ey = Inl err))"
  by (auto simp add: try_zone_def Let_def bind_err_def split: prod.splits sum.splits)

lemma try_zone_returns:
  "(fst (try_zone fetch sy ey w zd) = Inr prof)
     = (let pt = representative_point zd; r = fst (fetch w (lat pt) (lon pt) sy ey)
        in \<exists>raw. r = Inr raw \<and> process_monthly_data raw sy ey = Inr prof)"
  by (auto simp add: try_zone_def Let_def bind_err_def split: prod.splits sum.splits)

subsection \<open>Failure of one zone in the batch\<close>

text \<open>
  C8. Let the registry have distinct zone ids, and take any zone of it, with the zones
  before and after it. If the fetch for that zone raises, or the fetch returns and the
  processing of the response raises, the output holds for that zone exactly the document
  with the keys zone\_name, representative\_point and error, and without the key
  climate\_profile. If both return, it holds the document with the profile. Either way
  the loop goes on: the output has a document for every zone of the registry and for
  nothing else.
\<close>

theorem zone_failure_isolated:
  assumes "distinct (map fst zones)"
    and "zones = before @ (zone_id, zd) # after"
    and "w' = fst (zone_loop fetch str_e start_year end_year before w)"
    and "pt = representative_point zd"
    and "r = fst (fetch w' (lat pt) (lon pt) start_year end_year)"
    and "zones_out = snd (zone_loop fetch str_e start_year end_year zones w)"
  shows "(r = Inl err \<or> (\<exists>raw. r = Inr raw \<and> process_monthly_data raw start_year end_year = Inl err)
            \<longrightarrow> (\<exists>doc. zones_out zone_id = Some doc
                   \<and> doc = [''zone_name'' \<mapsto> Str (name zd),
                            ''representative_point'' \<mapsto> Point pt,
                            ''error'' \<mapsto> Str (str_e err)]
                   \<and> dom doc = {''zone_name'', ''representative_point'', ''error''}
                   \<and> doc ''climate_profile'' = None))
       \<and> (\<forall>raw prof. r = Inr raw \<and> process_monthly_data raw start_year end_year = Inr prof
            \<longrightarrow> zones_out zone_id
                  = Some [''zone_name'' \<mapsto> Str (name zd),
                          ''representative_point'' \<mapsto> Point pt,
                          ''climate_profile'' \<mapsto> Profile prof])
       \<and> dom zones_out = fst ` set zones"
proof -
  obtain out' where st: "zone_loop fetch str_e start_year end_year before w = (w', out')"
    using assms(3) by (cases "zone_loop fetch str_e start_year end_year before w") simp
  have at: "zones_out zone_id
              = snd (zone_step fetch str_e start_year end_year (zone_id, zd) (w', out')) zone_id"
    using zone_loop_at[of before zone_id zd after fetch str_e start_year end_year w] assms(1,2,6) st
    by simp
  have e: "zones_out zone_id = Some [''zone_name'' \<mapsto> Str (name zd),
                            ''representative_point'' \<mapsto> Point pt,
                            ''error'' \<mapsto> Str (str_e err)]"
    if "r = Inl err \<or> (\<exists>raw. r = Inr raw \<and> process_monthly_data raw start_year end_year = Inl err)"
  proof -
    from that have "fst (try_zone fetch start_year end_year w' zd) = Inl err"
      unfolding try_zone_raises Let_def using assms(4,5) by simp
    then show ?thesis using at assms(4) by (simp only: zone_step_error)
  qed
  have p: "zones_out zone_id = Some [''zone_name'' \<mapsto> Str (name zd),
                          ''representative_point'' \<mapsto> Point pt,
                          ''climate_profile'' \<mapsto> Profile prof]"
    if "r = Inr raw \<and> process_monthly_data raw start_year end_year = Inr prof" for raw prof
  proof -
    from that have "fst (try_zone fetch start_year end_year w' zd) = Inr prof"
      unfolding try_zone_returns Let_def using assms(4,5) by auto
    then show ?thesis using at assms(4) by (simp only: zone_step_profile)
  qed
  have d: "dom zones_out = fst ` set zones"
    unfolding assms(6) zone_loop_def by (simp add: fold_zone_step_dom)
  have k: "dom [''zone_name'' \<mapsto> Str (name zd), ''representative_point'' \<mapsto> Point pt,
                ''error'' \<mapsto> Str (str_e err)]
             = {''zone_name'', ''representative_point'', ''error''}" by auto
  have c: "[''zone_name'' \<mapsto> Str (name zd), ''representative_point'' \<mapsto> Point pt,
            ''error'' \<mapsto> Str (str_e err)] ''climate_profile'' = None" by simp
  show ?thesis using e p d k c by blast
qed

lemma process_empty_params:
  "\<exists>prof. process_monthly_data response_empty_params 2021 2021 = Inr prof"
  by (simp add: process_monthly_data_def response_empty_params_def dict_index_def bind_err_def
      compute_variability_def temperature_part_def Let_def)

theorem zone_failure_isolated_witness:
  "snd (zone_loop fetch_by_latitude str_of_error 2021 2021 three_zones 0) ''zone_b''
     = Some [''zone_name'' \<mapsto> Str ''B'',
             ''representative_point'' \<mapsto> Point \<lparr>lat = - 1, lon = - 7, label = ''b''\<rparr>,
             ''error'' \<mapsto> Str ''HTTP Error 500: Internal Server Error'']
   \<and> (\<exists>prof. snd (zone_loop fetch_by_latitude str_of_error 2021 2021 three_zones 0) ''zone_c''
         = Some [''zone_name'' \<mapsto> Str ''C'',
                 ''representative_point'' \<mapsto> Point \<lparr>lat = 31, lon = - 8, label = ''c''\<rparr>,
                 ''climate_profile'' \<mapsto> Profile prof])
   \<and> dom (snd (zone_loop fetch_by_latitude str_of_error 2021 2021 three_zones 0))
       = {''zone_a'', ''zone_b'', ''zone_c''}"
proof -
  let ?za = "\<lparr>name = ''A'', representative_point = \<lparr>lat = 34, lon = - 6, label = ''a''\<rparr>\<rparr>"
  let ?zb = "\<lparr>name = ''B'', representative_point = \<lparr>lat = - 1, lon = - 7, label = ''b''\<rparr>\<rparr>"
  let ?zc = "\<lparr>name = ''C'', representative_point = \<lparr>lat = 31, lon = - 8, label = ''c''\<rparr>\<rparr>"
  let ?out = "snd (zone_loop fetch_by_latitude str_of_error 2021 2021 three_zones 0)"
  let ?wb = "fst (zone_loop fetch_by_latitude str_of_error 2021 2021 [(''zone_a'', ?za)] 0)"
  let ?wc = "fst (zone_loop fetch_by_latitude str_of_error 2021 2021
                    [(''zone_a'', ?za), (''zone_b'', ?zb)] 0)"
  let ?err = "FetchError ''HTTP Error 500: Internal Server Error''"
  have d: "distinct (map fst three_zones)" by (simp add: three_zones_def)
  have zb: "three_zones = [(''zone_a'', ?za)] @ (''zone_b'', ?zb) # [(''zone_c'', ?zc)]"
    by (simp add: three_zones_def)
  have zc: "three_zones = [(''zone_a'', ?za), (''zone_b'', ?zb)] @ (''zone_c'', ?zc) # []"
    by (simp add: three_zones_def)
  have rb: "Inl ?err
          = fst (fetch_by_latitude ?wb (lat (representative_point ?zb))
                   (lon (representative_point ?zb)) 2021 2021)"
    by (simp add: fetch_by_latitude_def)
  have rc: "Inr response_empty_params
          = fst (fetch_by_latitude ?wc (lat (representative_point ?zc))
                   (lon (representative_point ?zc)) 2021 2021)"
    by (simp add: fetch_by_latitude_def)
  note tb = zone_failure_isolated [where zones = three_zones and before = "[(''zone_a'', ?za)]"
      and zone_id = "''zone_b''" and zd = ?zb and after = "[(''zone_c'', ?zc)]"
      and w' = ?wb and w = 0 and fetch = fetch_by_latitude and str_e = str_of_error
      and start_year = 2021 and end_year = 2021 and pt = "representative_point ?zb"
      and r = "Inl ?err" and zones_out = ?out and err = ?err, OF d zb refl refl rb refl]
  have b: "?out ''zone_b''
     = Some [''zone_name'' \<mapsto> Str (name ?zb),
             ''representative_point'' \<mapsto> Point (representative_point ?zb),
             ''error'' \<mapsto> Str (str_of_error ?err)]
   \<and> dom ?out = fst ` set three_zones"
    using tb by blast
  obtain prof where pr: "process_monthly_data response_empty_params 2021 2021 = Inr prof"
    using process_empty_params by blast
  note tc = zone_failure_isolated [where zones = three_zones
      and before = "[(''zone_a'', ?za), (''zone_b'', ?zb)]"
      and zone_id = "''zone_c''" and zd = ?zc and after = "[]"
      and w' = ?wc and w = 0 and fetch = fetch_by_latitude and str_e = str_of_error
      and start_year = 2021 and end_year = 2021 and pt = "representative_point ?zc"
      and r = "Inr response_empty_params" and zones_out = ?out and err = ?err,
      OF d zc refl refl rc refl]
  have c: "?out ''zone_c''
     = Some [''zone_name'' \<mapsto> Str (name ?zc),
             ''representative_point'' \<mapsto> Point (representative_point ?zc),
             ''climate_profile'' \<mapsto> Profile prof]"
    using tc pr by blast
  have b': "?out ''zone_b''
     = Some [''zone_name'' \<mapsto> Str ''B'',
             ''representative_point'' \<mapsto> Point \<lparr>lat = - 1, lon = - 7, label = ''b''\<rparr>,
             ''error'' \<mapsto> Str ''HTTP Error 500: Internal Server Error'']"
    using b by (simp add: str_of_error_def)
  have c': "\<exists>prof. ?out ''zone_c''
         = Some [''zone_name'' \<mapsto> Str ''C'',
                 ''representative_point'' \<mapsto> Point \<lparr>lat = 31, lon = - 8, label = ''c''\<rparr>,
                 ''climate_profile'' \<mapsto> Profile prof]"
    using c by (intro exI[of _ prof]) simp
  have "fst ` set three_zones = {''zone_a'', ''zone_b'', ''zone_c''}"
    by (simp add: three_zones_def)
  with b have dm: "dom ?out = {''zone_a'', ''zone_b'', ''zone_c''}" by (simp only:)
  from b' c' dm show ?thesis by (intro conjI)
qed

end
